theory Spec2Isabelle
  imports Main
begin

section \<open>Argument normalisation (init-local: rewriteTargetsAndProjects)\<close>

text \<open>
  A JavaScript value of type \<open>string | undefined | null\<close> is a \<open>string option\<close>, with
  \<open>None\<close> for the absent value. \<open>process.argv\<close> is a list of strings; reading it past
  its end yields \<open>undefined\<close>.
\<close>

type_synonym jsstring = "string option"

definition at_index :: "string list \<Rightarrow> nat \<Rightarrow> jsstring" where
  "at_index args i = (if i < length args then Some (args ! i) else None)"

text \<open>\<open>s.startsWith(p)\<close>\<close>

definition startsWith :: "string \<Rightarrow> string \<Rightarrow> bool" where
  "startsWith s p = (take (length p) s = p)"

text \<open>\<open>items.join(sep)\<close> on an array of strings: the empty array gives the empty string.\<close>

fun join :: "string list \<Rightarrow> string \<Rightarrow> string" where
  "join [] sep = []"
| "join [x] sep = x"
| "join (x # y # ys) sep = x @ sep @ join (y # ys) sep"

text \<open>The test of the second branch of the scanning loop.\<close>

definition isCollectorFlag :: "string \<Rightarrow> bool" where
  "isCollectorFlag a =
     (a = ''-p'' \<or> a = ''--projects'' \<or> a = ''--exclude'' \<or> a = ''--files'' \<or>
      a = ''-t'' \<or> a = ''--target'' \<or> a = ''--targets'')"

text \<open>
  The inner loop
  \<^verbatim>\<open>while (i < args.length && !args[i].startsWith('-')) { items.push(args[i]); i++; }\<close>
  returning the final index and the collected items.
\<close>

function collectItems :: "string list \<Rightarrow> nat \<Rightarrow> string list \<Rightarrow> nat \<times> string list" where
  "collectItems args i items =
     (if i < length args \<and> \<not> startsWith (args ! i) ''-''
      then collectItems args (i + 1) (items @ [args ! i])
      else (i, items))"
  by pat_completeness auto
termination
  by (relation "measure (\<lambda>(args, i, items). length args - i)") auto

declare collectItems.simps [simp del]

lemma collectItems_lower: "i \<le> fst (collectItems args i items)"
proof (induction args i items rule: collectItems.induct)
  case (1 args i items)
  show ?case
  proof (cases "i < length args \<and> \<not> startsWith (args ! i) ''-''")
    case True
    with "1" have "i + 1 \<le> fst (collectItems args (i + 1) (items @ [args ! i]))"
      by simp
    with True show ?thesis
      by (subst collectItems.simps) simp
  next
    case False
    then show ?thesis
      by (subst collectItems.simps) auto
  qed
qed

text \<open>
  The outer loop \<^verbatim>\<open>while (i < args.length) { ... }\<close> with its three branches; \<open>newArgs\<close>
  is the output built so far.
\<close>

function rewriteLoop :: "string list \<Rightarrow> nat \<Rightarrow> jsstring list \<Rightarrow> jsstring list" where
  "rewriteLoop args i newArgs =
     (if i < length args then
        (if args ! i = ''--'' then newArgs @ map Some (drop i args)
         else if isCollectorFlag (args ! i) then
           (case collectItems args (i + 1) [] of
              (j, items) \<Rightarrow>
                rewriteLoop args j (newArgs @ [Some (args ! i)] @ [Some (join items '','')]))
         else rewriteLoop args (i + 1) (newArgs @ [Some (args ! i)]))
      else newArgs)"
  by pat_completeness auto
termination
proof (relation "measure (\<lambda>(args, i, newArgs). length args - i)", goal_cases)
  case 1
  show ?case by simp
next
  case (2 args i newArgs j items)
  have "i + 1 \<le> fst (collectItems args (i + 1) [])"
    by (rule collectItems_lower)
  moreover have "fst (collectItems args (i + 1) []) = j"
    using 2 by (metis Suc_eq_plus1 fst_conv)
  ultimately show ?case using 2 by auto
next
  case (3 args i newArgs)
  then show ?case by auto
qed

declare rewriteLoop.simps [simp del]

definition rewriteTargetsAndProjects :: "string list \<Rightarrow> jsstring list" where
  "rewriteTargetsAndProjects args = rewriteLoop args 3 [at_index args 2]"


subsection \<open>The loop as a function of the remaining tokens\<close>


lemma collectItems_takeWhile:
  "collectItems args i items =
     (i + length (takeWhile (\<lambda>a. \<not> startsWith a ''-'') (drop i args)),
      items @ takeWhile (\<lambda>a. \<not> startsWith a ''-'') (drop i args))"
proof (induction args i items rule: collectItems.induct)
  case (1 args i items)
  show ?case
  proof (cases "i < length args")
    case True
    then have d: "drop i args = args ! i # drop (i + 1) args"
      by (simp add: Cons_nth_drop_Suc)
    show ?thesis
    proof (cases "startsWith (args ! i) ''-''")
      case True
      with \<open>i < length args\<close> d show ?thesis
        by (subst collectItems.simps) simp
    next
      case False
      with \<open>i < length args\<close> d "1" show ?thesis
        by (subst collectItems.simps) simp
    qed
  next
    case False
    then show ?thesis
      by (subst collectItems.simps) simp
  qed
qed

text \<open>
  The same scan written over the list of tokens still to be read, used to reason about
  the index-based loop: \<open>rewriteLoop_scan\<close> below shows the loop computes it.
\<close>

function scan :: "string list \<Rightarrow> jsstring list" where
  "scan [] = []"
| "scan (a # rest) =
     (if a = ''--'' then map Some (a # rest)
      else if isCollectorFlag a then
        Some a # Some (join (takeWhile (\<lambda>a. \<not> startsWith a ''-'') rest) '','')
          # scan (dropWhile (\<lambda>a. \<not> startsWith a ''-'') rest)
      else Some a # scan rest)"
  by pat_completeness auto
termination
  by (relation "measure length") (auto simp: length_dropWhile_le less_Suc_eq_le)

declare scan.simps(2) [simp del]

lemma rewriteLoop_scan: "rewriteLoop args i newArgs = newArgs @ scan (drop i args)"
proof (induction args i newArgs rule: rewriteLoop.induct)
  case (1 args i newArgs)
  show ?case
  proof (cases "i < length args")
    case False
    then show ?thesis by (subst rewriteLoop.simps) simp
  next
    case True
    then have d: "drop i args = args ! i # drop (i + 1) args"
      by (simp add: Cons_nth_drop_Suc)
    consider (sep) "args ! i = ''--''"
      | (coll) "args ! i \<noteq> ''--''" "isCollectorFlag (args ! i)"
      | (other) "args ! i \<noteq> ''--''" "\<not> isCollectorFlag (args ! i)"
      by blast
    then show ?thesis
    proof cases
      case sep
      with True d show ?thesis
        by (subst rewriteLoop.simps) (simp add: scan.simps(2))
    next
      case coll
      let ?P = "\<lambda>a. \<not> startsWith a ''-''"
      let ?j = "i + 1 + length (takeWhile ?P (drop (i + 1) args))"
      let ?items = "takeWhile ?P (drop (i + 1) args)"
      have c: "collectItems args (i + 1) [] = (?j, ?items)"
        by (simp add: collectItems_takeWhile)
      have dj: "drop ?j args = dropWhile ?P (drop (i + 1) args)"
        by (metis add.commute drop_drop dropWhile_eq_drop)
      have "rewriteLoop args i newArgs =
              rewriteLoop args ?j (newArgs @ [Some (args ! i)] @ [Some (join ?items '','')])"
        using True coll c by (subst rewriteLoop.simps) simp
      also have "\<dots> = (newArgs @ [Some (args ! i)] @ [Some (join ?items '','')]) @ scan (drop ?j args)"
        using "1.IH"(1) [OF True coll(1) coll(2) c [symmetric]] .
      finally show ?thesis
        using coll d dj by (simp add: scan.simps(2))
    next
      case other
      with True d "1.IH"(2) show ?thesis
        by (subst rewriteLoop.simps) (simp add: scan.simps(2))
    qed
  qed
qed


subsection \<open>The separator and the collector flags\<close>


lemma scan_append_dash:
  "''--'' \<notin> set pre \<Longrightarrow> startsWith x ''-'' \<Longrightarrow> scan (pre @ x # ys) = scan pre @ scan (x # ys)"
proof (induction pre rule: scan.induct)
  case 1
  show ?case by simp
next
  case (2 a rest)
  let ?P = "\<lambda>a. \<not> startsWith a ''-''"
  from "2.prems" have a: "a \<noteq> ''--''" and r: "''--'' \<notin> set rest"
    by auto
  show ?case
  proof (cases "isCollectorFlag a")
    case True
    have "''--'' \<notin> set (dropWhile ?P rest)"
      using r by (auto dest: set_dropWhileD)
    with "2.IH"(1) a True "2.prems"(2)
    have "scan (dropWhile ?P rest @ x # ys) = scan (dropWhile ?P rest) @ scan (x # ys)"
      by simp
    moreover have "takeWhile ?P (rest @ x # ys) = takeWhile ?P rest"
      using "2.prems"(2) by (simp add: takeWhile_tail)
    moreover have "dropWhile ?P (rest @ x # ys) = dropWhile ?P rest @ x # ys"
      using "2.prems"(2) by (simp add: dropWhile_append3)
    ultimately show ?thesis
      using a True by (simp add: scan.simps(2))
  next
    case False
    with "2.IH"(2) a r "2.prems"(2) show ?thesis
      by (simp add: scan.simps(2))
  qed
qed

lemma rewriteTargetsAndProjects_scan:
  "3 \<le> length args \<Longrightarrow> rewriteTargetsAndProjects args = Some (args ! 2) # scan (drop 3 args)"
  by (simp add: rewriteTargetsAndProjects_def rewriteLoop_scan at_index_def)

lemma rewriteTargetsAndProjects_append:
  assumes "3 \<le> length pre" and "''--'' \<notin> set (drop 3 pre)" and "startsWith x ''-''"
  shows "rewriteTargetsAndProjects (pre @ x # ys) = rewriteTargetsAndProjects pre @ scan (x # ys)"
proof -
  have "drop 3 (pre @ x # ys) = drop 3 pre @ x # ys"
    using assms(1) by simp
  moreover have "(pre @ x # ys) ! 2 = pre ! 2"
    using assms(1) by (simp add: nth_append)
  ultimately show ?thesis
    using assms by (simp add: rewriteTargetsAndProjects_scan scan_append_dash)
qed

lemma isCollectorFlag_dash: "isCollectorFlag a \<Longrightarrow> startsWith a ''-'' \<and> a \<noteq> ''--''"
  by (auto simp: isCollectorFlag_def startsWith_def)

text \<open>
  C2. The scan starts after the command token. When the first \<open>--\<close> it can meet stands at
  position \<open>length pre\<close> (at least 3), the output is the output for the tokens before it,
  followed by \<open>--\<close> and every later token unchanged: nothing after the separator is
  rewritten, whatever it is.
\<close>

theorem separator_passthrough:
  assumes "3 \<le> length pre" and "''--'' \<notin> set (drop 3 pre)"
  shows "rewriteTargetsAndProjects (pre @ ''--'' # post) =
           rewriteTargetsAndProjects pre @ map Some (''--'' # post)"
  using rewriteTargetsAndProjects_append [OF assms, of "''--''" post]
  by (simp add: startsWith_def scan.simps(2))

theorem separator_passthrough_witness:
  "rewriteTargetsAndProjects [''node'', ''cli'', ''build'', ''--'', ''-p'', ''a''] =
     [Some ''build'', Some ''--'', Some ''-p'', Some ''a'']"
proof -
  have "rewriteTargetsAndProjects [''node'', ''cli'', ''build''] = [Some ''build'']"
    by code_simp
  then show ?thesis
    using separator_passthrough [of "[''node'', ''cli'', ''build'']" "[''-p'', ''a'']"]
    by simp
qed

text \<open>\<open>join\<close> with its separator written out: one separator before every item but the first.\<close>

lemma join_concat:
  "join xs sep = (case xs of [] \<Rightarrow> [] | x # ys \<Rightarrow> x @ concat (map (\<lambda>y. sep @ y) ys))"
  by (induction xs sep rule: join.induct) simp_all

text \<open>
  C3. A collector flag met by the scan (at position \<open>length pre\<close>, at least 3, with no
  \<open>--\<close> scanned before it) is emitted unchanged, followed by one token: the tokens after
  it that do not start with \<open>-\<close>, up to the first that does or to the end, written one
  after the other with a comma between neighbours. With no such token that one token is
  the empty string. The scan then goes on with the rest.
\<close>

theorem collector_flag_join:
  assumes "3 \<le> length pre" and "''--'' \<notin> set (drop 3 pre)"
    and "isCollectorFlag flag"
    and "\<forall>a \<in> set items. \<not> startsWith a ''-''"
    and "case rest of [] \<Rightarrow> True | r # _ \<Rightarrow> startsWith r ''-''"
  shows "rewriteTargetsAndProjects (pre @ flag # items @ rest) =
           rewriteTargetsAndProjects pre @
           [Some flag,
            Some (case items of [] \<Rightarrow> [] | x # ys \<Rightarrow> x @ concat (map (\<lambda>y. '','' @ y) ys))] @
           rewriteLoop rest 0 []"
proof -
  let ?P = "\<lambda>a. \<not> startsWith a ''-''"
  have t: "takeWhile ?P (items @ rest) = items"
    using assms(4,5) by (cases rest) (simp_all add: takeWhile_tail)
  have d: "dropWhile ?P (items @ rest) = rest"
    using assms(4,5) by (cases rest) (simp_all add: dropWhile_append3)
  have "scan (flag # items @ rest) = Some flag # Some (join items '','') # scan rest"
    using isCollectorFlag_dash [OF assms(3)] assms(3) t d by (simp add: scan.simps(2))
  then show ?thesis
    using rewriteTargetsAndProjects_append [OF assms(1,2), of flag "items @ rest"]
      isCollectorFlag_dash [OF assms(3)]
    by (simp add: rewriteLoop_scan join_concat [of items])
qed

theorem collector_flag_join_witness:
  "rewriteTargetsAndProjects [''node'', ''cli'', ''build'', ''-p'', ''a'', ''b'', ''--verbose''] =
     [Some ''build'', Some ''-p'', Some ''a,b'', Some ''--verbose''] \<and>
   rewriteTargetsAndProjects [''node'', ''cli'', ''build'', ''--files'', ''x.ts'', ''y.ts'', ''z.ts''] =
     [Some ''build'', Some ''--files'', Some ''x.ts,y.ts,z.ts''] \<and>
   rewriteTargetsAndProjects [''node'', ''cli'', ''test'', ''-t'', ''x'', ''-p''] =
     [Some ''test'', Some ''-t'', Some ''x'', Some ''-p'', Some '''']"
proof -
  have p: "rewriteTargetsAndProjects [''node'', ''cli'', ''build''] = [Some ''build'']"
    "rewriteTargetsAndProjects [''node'', ''cli'', ''test'', ''-t'', ''x''] =
       [Some ''test'', Some ''-t'', Some ''x'']"
    by code_simp+
  have r: "rewriteLoop [''--verbose''] 0 [] = [Some ''--verbose'']" "rewriteLoop [] 0 [] = []"
    by code_simp+
  have a: "rewriteTargetsAndProjects [''node'', ''cli'', ''build'', ''-p'', ''a'', ''b'', ''--verbose''] =
             [Some ''build'', Some ''-p'', Some ''a,b'', Some ''--verbose'']"
    using collector_flag_join [of "[''node'', ''cli'', ''build'']" "''-p''" "[''a'', ''b'']"
        "[''--verbose'']"] p r
    by (simp add: isCollectorFlag_def startsWith_def)
  have b: "rewriteTargetsAndProjects [''node'', ''cli'', ''build'', ''--files'', ''x.ts'', ''y.ts'', ''z.ts''] =
             [Some ''build'', Some ''--files'', Some ''x.ts,y.ts,z.ts'']"
    using collector_flag_join [of "[''node'', ''cli'', ''build'']" "''--files''"
        "[''x.ts'', ''y.ts'', ''z.ts'']" "[]"] p r
    by (simp add: isCollectorFlag_def startsWith_def)
  have c: "rewriteTargetsAndProjects [''node'', ''cli'', ''test'', ''-t'', ''x'', ''-p''] =
             [Some ''test'', Some ''-t'', Some ''x'', Some ''-p'', Some '''']"
    using collector_flag_join [of "[''node'', ''cli'', ''test'', ''-t'', ''x'']" "''-p''" "[]" "[]"] p r
    by (simp add: isCollectorFlag_def)
  from a b c show ?thesis by simp
qed

section \<open>The dispatcher (bin/neoai)\<close>

subsection \<open>The process and its surroundings\<close>

text \<open>
  What the dispatcher reads from outside its own code is a field of \<open>world\<close>: the
  argument vector, the workspace lookup, module resolution, the package files, the
  \<open>semver\<close> library and the shell commands it runs. A lookup that throws is \<open>None\<close>.
  \<open>execSync\<close> takes the number of commands the process has run so far, so that the same
  command may fail once and succeed later. \<open>trim\<close> is \<open>String.prototype.trim\<close>.
  \<open>requireModule p\<close> tells whether \<^verbatim>\<open>require(p)\<close> loads the module at the path \<open>p\<close>;
  when it is false the call throws.
\<close>

record WorkspaceTypeAndRoot =
  type :: string
  dir :: string

record world =
  argv :: "string list"
  platformSupported :: bool
  findWorkspaceRoot :: "WorkspaceTypeAndRoot option"
  daemonEnabled :: bool
  globalsRoot :: string
  getNeoaiInstallationPath :: "string \<Rightarrow> string"
  requireResolve :: "string \<Rightarrow> string option"
  readModulePackageJson :: "string \<Rightarrow> jsstring option"
  packageJsonVersion :: jsstring
  major :: "string \<Rightarrow> nat option"
  execSync :: "nat \<Rightarrow> string \<Rightarrow> string option"
  trim :: "string \<Rightarrow> string"
  requireModule :: "string \<Rightarrow> bool"
  commandHandlers :: "string list"
  parseThrows :: "jsstring list \<Rightarrow> bool"
  resolveAngularCli :: "string \<Rightarrow> string option"

datatype error = ModuleNotFound | InvalidVersion | TypeError | CommandError | UnsupportedPlatform

text \<open>The effects of the process that can be seen from outside, in the order they happen.\<close>

datatype event =
    SetEnv string string
  | LoadRootEnvFiles string
  | SetupWorkspaceContext string
  | LogNotInWorkspace
  | NoteMoreInformation
  | WarnOutdated "string list"
  | ErrorMissingModules jsstring
  | PrintVersions string string
  | ConsoleLog string
  | ConsoleWarn string
  | ConsoleError string
  | ExecSync string
  | CommandsArgv
  | CommandsParse "jsstring list"
  | CommandsShowHelp
  | EnsureNeoaiConsoleInstalled
  | Require string
  | ProcessExit nat

text \<open>
  The mutable state of the process: its environment variables, the effects so far, the
  variable \<open>cache\<close> captured by \<open>getLatestVersionOfNeoai\<close>, the number of shell commands
  run, and \<open>globalThis.GLOBAL_NEOAI_VERSION\<close>.
\<close>

record state =
  env :: "string \<rightharpoonup> string"
  events :: "event list"
  cache :: jsstring
  execs :: nat
  GLOBAL_NEOAI_VERSION :: jsstring

definition initialState :: "(string \<rightharpoonup> string) \<Rightarrow> state" where
  "initialState e = \<lparr>env = e, events = [], cache = None, execs = 0, GLOBAL_NEOAI_VERSION = None\<rparr>"

definition emit :: "event \<Rightarrow> state \<Rightarrow> state" where
  "emit e s = s\<lparr>events := events s @ [e]\<rparr>"

definition setEnv :: "string \<Rightarrow> string \<Rightarrow> state \<Rightarrow> state" where
  "setEnv k v s = emit (SetEnv k v) (s\<lparr>env := (env s)(k \<mapsto> v)\<rparr>)"

text \<open>
  JavaScript truthiness of a \<open>string | null | undefined\<close>: absent values and the empty
  string are false.
\<close>

definition truthy :: "jsstring \<Rightarrow> bool" where
  "truthy v = (case v of None \<Rightarrow> False | Some x \<Rightarrow> x \<noteq> [])"

definition argv2 :: "world \<Rightarrow> jsstring" where
  "argv2 w = at_index (argv w) 2"

subsection \<open>Installation resolution\<close>

text \<open>
  \<open>resolveNeoai\<close>: the first \<open>require.resolve\<close> stands in a \<open>try\<close> with an empty
  \<open>catch\<close>; the second one does not, and its exception leaves the function.
\<close>

definition resolveNeoai :: "world \<Rightarrow> WorkspaceTypeAndRoot option \<Rightarrow> error + string" where
  "resolveNeoai w workspace =
     (let root = (case workspace of Some ws \<Rightarrow> dir ws | None \<Rightarrow> globalsRoot w) in
      case requireResolve w (getNeoaiInstallationPath w root) of
        Some p \<Rightarrow> Inr p
      | None \<Rightarrow>
          (case requireResolve w root of
             Some p \<Rightarrow> Inr p
           | None \<Rightarrow> Inl ModuleNotFound))"

text \<open>
  Lines 70 to 75 of \<open>main\<close>:
  \<^verbatim>\<open>try { localNeoai = workspace && resolveNeoai(workspace); } catch { localNeoai = null; }\<close>
\<close>

definition resolveLocalNeoai :: "world \<Rightarrow> jsstring" where
  "resolveLocalNeoai w =
     (case findWorkspaceRoot w of
        None \<Rightarrow> None
      | Some ws \<Rightarrow>
          (case resolveNeoai w (Some ws) of
             Inr p \<Rightarrow> Some p
           | Inl e \<Rightarrow> None))"

definition isNeoaiCloudCommand :: "jsstring \<Rightarrow> bool" where
  "isNeoaiCloudCommand command =
     (command \<in> set (map Some [''start-ci-run'', ''login'', ''logout'', ''connect'',
                                ''view-logs'', ''fix-ci'', ''record'']))"

subsection \<open>Versions and the outdated-global-install warning\<close>

text \<open>\<open>getLocalNeoaiVersion\<close>: the read stands in a \<open>try\<close> with an empty \<open>catch\<close>.\<close>

definition getLocalNeoaiVersion :: "world \<Rightarrow> WorkspaceTypeAndRoot option \<Rightarrow> jsstring" where
  "getLocalNeoaiVersion w workspace =
     (case workspace of
        None \<Rightarrow> None
      | Some ws \<Rightarrow>
          (case readModulePackageJson w (dir ws) of
             None \<Rightarrow> None
           | Some version \<Rightarrow> version))"

text \<open>
  \<open>determineNeoaiVersions\<close> returns the pair \<open>(LOCAL_NEOAI_VERSION, GLOBAL_NEOAI_VERSION)\<close>
  and sets the global variable when it is still absent (\<open>??=\<close>).
\<close>

definition determineNeoaiVersions ::
  "world \<Rightarrow> jsstring \<Rightarrow> WorkspaceTypeAndRoot option \<Rightarrow> bool \<Rightarrow> state \<Rightarrow> (jsstring \<times> jsstring) \<times> state" where
  "determineNeoaiVersions w localNeoai workspace isLocalInstall s =
     (let LOCAL = (if truthy localNeoai then getLocalNeoaiVersion w workspace else None);
          GLOBAL = (if isLocalInstall then None else packageJsonVersion w)
      in ((LOCAL, GLOBAL),
          (case GLOBAL_NEOAI_VERSION s of
             None \<Rightarrow> s\<lparr>GLOBAL_NEOAI_VERSION := GLOBAL\<rparr>
           | Some v \<Rightarrow> s)))"

definition exec :: "world \<Rightarrow> string \<Rightarrow> state \<Rightarrow> string option \<times> state" where
  "exec w cmd s = (execSync w (execs s) cmd, emit (ExecSync cmd) (s\<lparr>execs := execs s + 1\<rparr>))"

text \<open>\<open>_getLatestVersionOfNeoai\<close>: npm first, pnpm when npm throws, null when both throw.\<close>

definition getLatestVersionOfNeoai_uncached :: "world \<Rightarrow> state \<Rightarrow> jsstring \<times> state" where
  "getLatestVersionOfNeoai_uncached w s =
     (case exec w ''npm view neoai@latest version'' s of
        (Some out, s1) \<Rightarrow> (Some (trim w out), s1)
      | (None, s1) \<Rightarrow>
          (case exec w ''pnpm view neoai@latest version'' s1 of
             (Some out, s2) \<Rightarrow> (Some (trim w out), s2)
           | (None, s2) \<Rightarrow> (None, s2)))"

text \<open>
  \<open>getLatestVersionOfNeoai\<close> is \<^verbatim>\<open>() => cache || (cache = fn())\<close> with \<open>cache\<close> starting
  at null.
\<close>

definition getLatestVersionOfNeoai :: "world \<Rightarrow> state \<Rightarrow> jsstring \<times> state" where
  "getLatestVersionOfNeoai w s =
     (if truthy (cache s) then (cache s, s)
      else (case getLatestVersionOfNeoai_uncached w s of
              (r, s1) \<Rightarrow> (r, s1\<lparr>cache := r\<rparr>)))"

text \<open>
  \<open>checkOutdatedGlobalInstallation\<close> returns true, false or nothing (\<open>undefined\<close>, here
  \<open>None\<close>); \<open>major\<close> throws on a string that is not a version. In
  \<^verbatim>\<open>latest && major(global) < major(latest)\<close> the comparison is evaluated only when
  \<open>latest\<close> is truthy.
\<close>

definition compareMajor :: "world \<Rightarrow> string \<Rightarrow> string \<Rightarrow> error + bool" where
  "compareMajor w a b =
     (case major w a of
        None \<Rightarrow> Inl InvalidVersion
      | Some m \<Rightarrow>
          (case major w b of
             None \<Rightarrow> Inl InvalidVersion
           | Some n \<Rightarrow> Inr (m < n)))"

definition checkOutdatedGlobalInstallation ::
  "world \<Rightarrow> jsstring \<Rightarrow> jsstring \<Rightarrow> state \<Rightarrow> (error + bool option) \<times> state" where
  "checkOutdatedGlobalInstallation w globalNeoaiVersion localNeoaiVersion s =
     (if \<not> truthy globalNeoaiVersion then (Inr (Some False), s)
      else if truthy localNeoaiVersion then
        (case compareMajor w (the globalNeoaiVersion) (the localNeoaiVersion) of
           Inl e \<Rightarrow> (Inl e, s)
         | Inr b \<Rightarrow> (Inr (Some b), s))
      else
        (case getLatestVersionOfNeoai w s of
           (latest, s1) \<Rightarrow>
             (if \<not> truthy latest then (Inr None, s1)
              else (case compareMajor w (the globalNeoaiVersion) (the latest) of
                      Inl e \<Rightarrow> (Inl e, s1)
                    | Inr b \<Rightarrow> (if b then (Inr (Some True), s1) else (Inr None, s1))))))"

text \<open>The body lines of the warning.\<close>

definition warningBodyLines :: "jsstring \<Rightarrow> jsstring \<Rightarrow> string list" where
  "warningBodyLines globalNeoaiVersion localNeoaiVersion =
     (if truthy localNeoaiVersion
      then [''Your repository uses a higher version of Neoai ('' @ the localNeoaiVersion @
            '') than your global CLI version ('' @ (case globalNeoaiVersion of Some g \<Rightarrow> g | None \<Rightarrow> ''undefined'') @ '')'']
      else []) @
     [''For more information, see https://khulnasoft.com/more-concepts/global-neoai'']"

text \<open>
  \<open>warnIfUsingOutdatedGlobalInstall\<close>: \<open>Inl e\<close> when the check throws, \<open>Inr ()\<close> when
  the function returns.
\<close>

definition warnIfUsingOutdatedGlobalInstall ::
  "world \<Rightarrow> jsstring \<Rightarrow> jsstring \<Rightarrow> state \<Rightarrow> (error + unit) \<times> state" where
  "warnIfUsingOutdatedGlobalInstall w globalNeoaiVersion localNeoaiVersion s =
     (if truthy (env s ''NEOAI_CLI_SET'') then (Inr (), s)
      else (case checkOutdatedGlobalInstallation w globalNeoaiVersion localNeoaiVersion s of
              (Inl e, s1) \<Rightarrow> (Inl e, s1)
            | (Inr isOutdatedGlobalInstall, s1) \<Rightarrow>
                (if isOutdatedGlobalInstall = Some True
                 then (Inr (), emit (WarnOutdated (warningBodyLines globalNeoaiVersion localNeoaiVersion)) s1)
                 else (Inr (), s1))))"

subsection \<open>The exits of the dispatcher\<close>

text \<open>
  The three handlers end in \<open>process.exit\<close> and never return. \<open>handleNoWorkspace\<close> can
  also be left by an exception of the warning check, before it exits: \<open>Some e\<close>.
\<close>

definition handleNoWorkspace :: "world \<Rightarrow> jsstring \<Rightarrow> state \<Rightarrow> error option \<times> state" where
  "handleNoWorkspace w globalNeoaiVersion s =
     (case warnIfUsingOutdatedGlobalInstall w globalNeoaiVersion None
             (emit NoteMoreInformation (emit LogNotInWorkspace s)) of
        (Inl e, s1) \<Rightarrow> (Some e, s1)
      | (Inr u, s1) \<Rightarrow> (None, emit (ProcessExit 1) s1))"

definition handleNeoaiVersionCommand :: "jsstring \<Rightarrow> jsstring \<Rightarrow> state \<Rightarrow> state" where
  "handleNeoaiVersionCommand LOCAL GLOBAL s =
     emit (ProcessExit 0)
       (emit (PrintVersions (if truthy LOCAL then ''v'' @ the LOCAL else ''Not found'')
                            (if truthy GLOBAL then ''v'' @ the GLOBAL else ''Not found'')) s)"

definition handleMissingLocalInstallation :: "jsstring \<Rightarrow> state \<Rightarrow> state" where
  "handleMissingLocalInstallation detectedWorkspaceRoot s =
     emit (ProcessExit 1) (emit (ErrorMissingModules detectedWorkspaceRoot) s)"

subsection \<open>In-process execution (init-local)\<close>

text \<open>
  The texts written to the console are abbreviated to a tag naming the message. A run of
  \<open>console.log\<close> calls printing one message is one event.
\<close>

definition shouldDelegateToAngularCLI :: "world \<Rightarrow> bool" where
  "shouldDelegateToAngularCLI w =
     (argv2 w \<in> set (map Some [''analytics'', ''cache'', ''completion'', ''config'', ''doc'', ''update'']))"

text \<open>
  \<open>handleAngularCLIFallbacks\<close>: \<open>Some 1\<close> when it ends the process, \<open>None\<close> when it
  returns. Resolving and loading the Angular CLI stand in one \<open>try\<close>.
\<close>

definition handleAngularCLIFallbacks :: "world \<Rightarrow> WorkspaceTypeAndRoot \<Rightarrow> state \<Rightarrow> nat option \<times> state" where
  "handleAngularCLIFallbacks w workspace s =
     (if argv2 w = Some ''update'' \<and> env s ''FORCE_NG_UPDATE'' \<noteq> Some ''true''
      then (None, emit (ConsoleLog ''ng update: use neoai migrate'') s)
      else if argv2 w = Some ''completion''
      then (if \<not> truthy (at_index (argv w) 3)
            then (None, emit (ConsoleLog ''ng completion is not supported'') s)
            else (None, s))
      else if argv2 w = Some ''cache''
      then (None, emit (ConsoleLog ''ng cache is not supported'') s)
      else (case resolveAngularCli w (dir workspace) of
              Some cli \<Rightarrow> (None, emit (Require cli) s)
            | None \<Rightarrow> (Some 1, emit (ProcessExit 1) (emit (ConsoleError ''Could not find @angular/cli'') s))))"

definition isKnownCommand :: "world \<Rightarrow> jsstring \<Rightarrow> bool" where
  "isKnownCommand w command =
     (\<not> truthy command \<or> startsWith (the command) ''-'' \<or>
      the command \<in> set (commandHandlers w @
        [''g'', ''dep-graph'', ''affected:dep-graph'', ''format'', ''workspace-schematic'',
         ''connect-to-neoai-cloud'', ''clear-cache'', ''help'']))"

text \<open>\<open>xs.indexOf(x)\<close>: the first position of \<open>x\<close>, or \<open>-1\<close>.\<close>

fun indexOf :: "'a list \<Rightarrow> 'a \<Rightarrow> int" where
  "indexOf [] x = -1"
| "indexOf (y # ys) x = (if y = x then 0 else (let k = indexOf ys x in if k = -1 then -1 else k + 1))"

text \<open>\<open>commandsObject.parse(args)\<close>: the command body runs, and may throw.\<close>

definition commandsParse :: "world \<Rightarrow> jsstring list \<Rightarrow> state \<Rightarrow> (error + unit) \<times> state" where
  "commandsParse w args s =
     (if parseThrows w args then (Inl CommandError, emit (CommandsParse args) s)
      else (Inr (), emit (CommandsParse args) s))"

text \<open>The body of the \<open>try\<close> block of \<open>initLocal\<close>, from \<open>const command = process.argv[2]\<close> on.\<close>

definition runCommand :: "world \<Rightarrow> state \<Rightarrow> (error + unit) \<times> state" where
  "runCommand w s =
     (let command = argv2 w in
      if command = Some ''run'' \<or> command = Some ''g'' \<or> command = Some ''generate''
      then commandsParse w (map Some (drop 2 (argv w))) s
      else if isKnownCommand w command then
        (let newArgs = rewriteTargetsAndProjects (argv w);
             help = indexOf newArgs (Some ''--help'');
             split = indexOf newArgs (Some ''--'')
         in if help > -1 \<and> (split = -1 \<or> split > help)
            then (Inr (), emit CommandsShowHelp s)
            else commandsParse w newArgs s)
      else commandsParse w (map Some (drop 2 (argv w))) s)"

text \<open>
  The \<open>try\<close> block of \<open>initLocal\<close>. Reading \<open>workspace.type\<close> of an absent workspace
  throws. The result is the exit code when the block ended the process.
\<close>

definition initLocalTry :: "world \<Rightarrow> WorkspaceTypeAndRoot option \<Rightarrow> state \<Rightarrow> (error + nat option) \<times> state" where
  "initLocalTry w workspace s =
     (case workspace of
        None \<Rightarrow> (Inl TypeError, s)
      | Some ws \<Rightarrow>
          (if type ws \<noteq> ''nx'' \<and> shouldDelegateToAngularCLI w
           then (case handleAngularCLIFallbacks w ws
                        (emit (ConsoleWarn ''Using Neoai to run Angular CLI commands is deprecated'') s) of
                   (code, s1) \<Rightarrow> (Inr code, s1))
           else (case runCommand w (emit EnsureNeoaiConsoleInstalled s) of
                   (Inl e, s1) \<Rightarrow> (Inl e, s1)
                 | (Inr u, s1) \<Rightarrow> (Inr None, s1))))"

text \<open>
  \<open>initLocal\<close>: the assignment to \<open>process.env.NEOAI_CLI_SET\<close>, then the \<open>try\<close> block
  with its \<open>catch\<close> (print the message, exit with 1). The exit listener for the
  terminal interface and the performance mark at the head of the block are left out.
\<close>

definition initLocal :: "world \<Rightarrow> WorkspaceTypeAndRoot option \<Rightarrow> state \<Rightarrow> nat option \<times> state" where
  "initLocal w workspace s =
     (case initLocalTry w workspace (setEnv ''NEOAI_CLI_SET'' ''true'' s) of
        (Inl e, s1) \<Rightarrow> (Some 1, emit (ProcessExit 1) (emit (ConsoleError ''e.message'') s1))
      | (Inr code, s1) \<Rightarrow> (code, s1))"

subsection \<open>Delegation to the local installation\<close>

text \<open>\<open>s.includes(sub)\<close>\<close>

fun includesStr :: "string \<Rightarrow> string \<Rightarrow> bool" where
  "includesStr [] sub = (sub = [])"
| "includesStr (c # cs) sub = (startsWith (c # cs) sub \<or> includesStr cs sub)"

text \<open>
  \<^verbatim>\<open>s.replace(/\.neoai.*/, '.neoai/')\<close>: the first \<open>.neoai\<close> and what follows it on
  the same line is replaced. The dot of the pattern does not match a line terminator;
  among the 8-bit characters of the strings here these are line feed and carriage return.
\<close>

definition isLineTerminator :: "char \<Rightarrow> bool" where
  "isLineTerminator c = (c = CHR 0x0A \<or> c = CHR 0x0D)"

fun replaceNeoaiTail :: "string \<Rightarrow> string" where
  "replaceNeoaiTail [] = []"
| "replaceNeoaiTail (c # cs) =
     (if startsWith (c # cs) ''.neoai''
      then ''.neoai/'' @ dropWhile (\<lambda>x. \<not> isLineTerminator x) (drop 6 (c # cs))
      else c # replaceNeoaiTail cs)"

text \<open>The module that line 106 to 111 of \<open>main\<close> load.\<close>

definition delegateTarget :: "string \<Rightarrow> string" where
  "delegateTarget localNeoai =
     (if includesStr localNeoai ''.neoai''
      then replaceNeoaiTail localNeoai @ ''neoaiw.js''
      else localNeoai)"

subsection \<open>main\<close>

text \<open>
  Where a run of the dispatcher ends. \<open>InProcess\<close>: the commands run in this process
  (\<open>commandsObject.argv\<close> for the exempt and the cloud commands, \<open>initLocal\<close> for the
  local copy). \<open>Delegate p\<close>: the module \<open>p\<close> of the local installation is loaded.
  \<open>ExitVersion\<close>, \<open>ExitNoWorkspace\<close>, \<open>ExitMissingLocal\<close>: the exits of the three
  handlers. \<open>ExitError\<close>: the handler of the rejected promise of \<open>main\<close>. \<open>NoAction\<close>:
  \<open>main\<close> returns without any of these.
\<close>

datatype terminal =
    InProcess
  | Delegate string
  | ExitVersion
  | ExitNoWorkspace
  | ExitMissingLocal
  | ExitError
  | NoAction

text \<open>
  Modelled from the spec: \<open>assertSupportedPlatform\<close> (its module,
  \<open>src/native/assert-supported-platform\<close>, is not among the sources). The spec treats an
  unsupported platform as an error raised by the call: fatal at once, with exit code 1,
  for the dispatcher, which does not catch it (4.5 and 6), and caught and logged by the
  post-install step (4.6). \<open>Some e\<close> is the exception.
\<close>

definition assertSupportedPlatform :: "bool \<Rightarrow> error option" where
  "assertSupportedPlatform supported = (if supported then None else Some UnsupportedPlatform)"

text \<open>The handler of \<^verbatim>\<open>main().catch(...)\<close>: print the error, exit with 1.\<close>

definition uncaught :: "error \<Rightarrow> state \<Rightarrow> terminal \<times> state" where
  "uncaught e s = (ExitError, emit (ProcessExit 1) (emit (ConsoleError ''error'') s))"

text \<open>
  Lines 84 to 112 of \<open>main\<close>. Each of the first three conditionals ends the process
  when its handler runs, so they read as one chain. The module to delegate to is loaded
  with \<open>require\<close>, outside every \<open>try\<close>: when it does not load, the exception reaches the
  handler of \<open>main\<close>.
\<close>

definition route ::
  "world \<Rightarrow> jsstring \<Rightarrow> bool \<Rightarrow> jsstring \<Rightarrow> jsstring \<Rightarrow> state \<Rightarrow> terminal \<times> state" where
  "route w localNeoai isLocalInstall LOCAL GLOBAL s =
     (let workspace = findWorkspaceRoot w in
      if argv2 w = Some ''--version''
      then (ExitVersion, handleNeoaiVersionCommand LOCAL GLOBAL s)
      else if workspace = None
      then (case handleNoWorkspace w GLOBAL s of
              (Some e, s1) \<Rightarrow> uncaught e s1
            | (None, s1) \<Rightarrow> (ExitNoWorkspace, s1))
      else if \<not> truthy localNeoai \<and> \<not> isNeoaiCloudCommand (argv2 w)
      then (ExitMissingLocal,
            handleMissingLocalInstallation (map_option dir workspace) s)
      else if isNeoaiCloudCommand (argv2 w)
      then (InProcess, emit CommandsArgv (setEnv ''NEOAI_DAEMON'' ''false'' s))
      else if isLocalInstall
      then (InProcess, snd (initLocal w workspace s))
      else if truthy localNeoai
      then (case warnIfUsingOutdatedGlobalInstall w GLOBAL LOCAL s of
              (Inl e, s1) \<Rightarrow> uncaught e s1
            | (Inr u, s1) \<Rightarrow>
                (if requireModule w (delegateTarget (the localNeoai))
                 then (Delegate (delegateTarget (the localNeoai)),
                       emit (Require (delegateTarget (the localNeoai))) s1)
                 else uncaught ModuleNotFound (emit (Require (delegateTarget (the localNeoai))) s1)))
      else (NoAction, s))"

text \<open>Lines 39 to 48 of \<open>main\<close>: the environment files of a workspace are loaded.\<close>

definition loadDotenv :: "world \<Rightarrow> state \<Rightarrow> state" where
  "loadDotenv w s =
     (case findWorkspaceRoot w of
        Some ws \<Rightarrow> emit (LoadRootEnvFiles (dir ws)) s
      | None \<Rightarrow> s)"

text \<open>Lines 60 to 62 of \<open>main\<close>.\<close>

definition setupContext :: "world \<Rightarrow> state \<Rightarrow> state" where
  "setupContext w s =
     (case findWorkspaceRoot w of
        Some ws \<Rightarrow> (if \<not> daemonEnabled w then emit (SetupWorkspaceContext (dir ws)) s else s)
      | None \<Rightarrow> s)"

text \<open>The condition of lines 26 to 31: the commands that run without the platform check.\<close>

definition skipsPlatformCheck :: "world \<Rightarrow> bool" where
  "skipsPlatformCheck w =
     (\<not> (argv2 w \<noteq> Some ''report'' \<and> argv2 w \<noteq> Some ''--version'' \<and>
         argv2 w \<noteq> Some ''--help'' \<and> argv2 w \<noteq> Some ''reset''))"

text \<open>The condition of lines 51 to 56: the commands that need no workspace.\<close>

definition isWorkspaceExempt :: "world \<Rightarrow> bool" where
  "isWorkspaceExempt w =
     (argv2 w = Some ''new'' \<or> argv2 w = Some ''_migrate'' \<or> argv2 w = Some ''init'' \<or>
      (argv2 w = Some ''graph'' \<and> findWorkspaceRoot w = None))"

text \<open>
  \<open>main\<close> with the handler of its rejected promise. The call \<open>resolveNeoai(null)\<close> of
  line 77 stands outside every \<open>try\<close>. Loading the performance logging, the performance
  marks, the polyfill of \<open>Symbol.observable\<close> and the exit listener that removes the
  database connections are left out: none of them changes what is modelled here.
\<close>

definition main :: "world \<Rightarrow> state \<Rightarrow> terminal \<times> state" where
  "main w s =
     (case (if \<not> skipsPlatformCheck w then assertSupportedPlatform (platformSupported w) else None) of
        Some e \<Rightarrow> uncaught e s
      | None \<Rightarrow>
          (let workspace = findWorkspaceRoot w;
               s2 = loadDotenv w s
           in if isWorkspaceExempt w
              then (InProcess, emit CommandsArgv (setEnv ''NEOAI_DAEMON'' ''false'' s2))
              else
                (let s3 = setupContext w s2;
                     localNeoai = resolveLocalNeoai w
                 in case resolveNeoai w None of
                      Inl e \<Rightarrow> uncaught e s3
                    | Inr self \<Rightarrow>
                        (let isLocalInstall = (localNeoai = Some self) in
                         case determineNeoaiVersions w localNeoai workspace isLocalInstall s3 of
                           ((LOCAL, GLOBAL), s4) \<Rightarrow>
                             route w localNeoai isLocalInstall LOCAL GLOBAL s4))))"

section \<open>Properties of the dispatcher\<close>

text \<open>
  What \<open>trim\<close> does to text made of ASCII characters, which is all the examples print:
  it removes space, tab, line feed, vertical tab, form feed and carriage return at both
  ends.
\<close>

definition isAsciiWhitespace :: "char \<Rightarrow> bool" where
  "isAsciiWhitespace c =
     (c = CHR '' '' \<or> c = CHR 0x09 \<or> c = CHR 0x0A \<or> c = CHR 0x0B \<or> c = CHR 0x0C \<or> c = CHR 0x0D)"

definition trimAscii :: "string \<Rightarrow> string" where
  "trimAscii x = rev (dropWhile isAsciiWhitespace (rev (dropWhile isAsciiWhitespace x)))"

text \<open>
  A concrete world for the examples: a global copy of version 18 started with \<open>build\<close>
  in a workspace that has its own copy of version 19; no shell command succeeds; the two
  copies and the wrapper of the workspace are the modules that load.
\<close>

definition exampleWorld :: world where
  "exampleWorld =
     \<lparr>argv = [''node'', ''neoai'', ''build''],
      platformSupported = True,
      findWorkspaceRoot = Some \<lparr>type = ''nx'', dir = ''/ws''\<rparr>,
      daemonEnabled = False,
      globalsRoot = ''/usr/lib'',
      getNeoaiInstallationPath = (\<lambda>root. root @ ''/.neoai/installation''),
      requireResolve = map_of [(''/ws'', ''/ws/node_modules/neoai/bin/neoai.js''),
                               (''/usr/lib'', ''/usr/lib/node_modules/neoai/bin/neoai.js'')],
      readModulePackageJson = (\<lambda>d. Some (Some ''19.0.0'')),
      packageJsonVersion = Some ''18.0.0'',
      major = map_of [(''18.0.0'', 18), (''19.0.0'', 19)],
      execSync = (\<lambda>n cmd. None),
      trim = trimAscii,
      requireModule = (\<lambda>p. p \<in> set [''/ws/node_modules/neoai/bin/neoai.js'',
                                      ''/usr/lib/node_modules/neoai/bin/neoai.js'',
                                      ''/ws/.neoai/neoaiw.js'']),
      commandHandlers = [''build'', ''test''],
      parseThrows = (\<lambda>args. False),
      resolveAngularCli = (\<lambda>d. None)\<rparr>"

subsection \<open>The outdated-global-install warning\<close>

text \<open>The effects a step from \<open>s\<close> to \<open>s'\<close> added.\<close>

definition newEvents :: "state \<Rightarrow> state \<Rightarrow> event list" where
  "newEvents s s' = drop (length (events s)) (events s')"

fun isWarnOutdated :: "event \<Rightarrow> bool" where
  "isWarnOutdated (WarnOutdated body) = True"
| "isWarnOutdated e = False"

text \<open>
  A call of \<open>warnIfUsingOutdatedGlobalInstall\<close> emits the warning when \<open>output.warn\<close> is
  among the effects it adds.
\<close>

definition warningEmitted :: "world \<Rightarrow> jsstring \<Rightarrow> jsstring \<Rightarrow> state \<Rightarrow> bool" where
  "warningEmitted w g l s =
     list_ex isWarnOutdated (newEvents s (snd (warnIfUsingOutdatedGlobalInstall w g l s)))"

lemma newEvents_same [simp]: "newEvents s s = []"
  by (simp add: newEvents_def)

lemma newEvents_emit [simp]: "newEvents s (emit e s) = [e]"
  by (simp add: newEvents_def emit_def)

lemma warn_no_global:
  "\<not> truthy g \<Longrightarrow> warnIfUsingOutdatedGlobalInstall w g l s = (Inr (), s)"
  by (simp add: warnIfUsingOutdatedGlobalInstall_def checkOutdatedGlobalInstallation_def)

lemma warn_marker:
  "truthy (env s ''NEOAI_CLI_SET'') \<Longrightarrow> warnIfUsingOutdatedGlobalInstall w g l s = (Inr (), s)"
  by (simp add: warnIfUsingOutdatedGlobalInstall_def)

lemma warn_local_known:
  assumes "truthy g" and "truthy l" and "\<not> truthy (env s ''NEOAI_CLI_SET'')"
  shows "warnIfUsingOutdatedGlobalInstall w g l s =
           (case compareMajor w (the g) (the l) of
              Inl e \<Rightarrow> (Inl e, s)
            | Inr b \<Rightarrow> (Inr (), if b then emit (WarnOutdated (warningBodyLines g l)) s else s))"
  using assms
  by (simp add: warnIfUsingOutdatedGlobalInstall_def checkOutdatedGlobalInstallation_def
      split: sum.splits)

lemma compareMajor_less:
  "compareMajor w a b = Inr True \<longleftrightarrow> (\<exists>m n. major w a = Some m \<and> major w b = Some n \<and> m < n)"
  by (auto simp: compareMajor_def split: option.splits)

text \<open>
  C4. (1) Without a global version (absent or empty) the warning is never emitted.
  (2) With a global and a local version, and the marker variable \<open>NEOAI_CLI_SET\<close> not
  holding a non-empty value, it is emitted exactly when both versions have a major
  number and the global one is smaller. (3) When \<open>NEOAI_CLI_SET\<close> holds a non-empty value
  it is never emitted, whatever the versions are.
\<close>

theorem outdated_warning_rules:
  "(\<not> truthy g \<longrightarrow> \<not> warningEmitted w g l s) \<and>
   (truthy g \<and> truthy l \<and> \<not> truthy (env s ''NEOAI_CLI_SET'') \<longrightarrow>
      (warningEmitted w g l s \<longleftrightarrow>
         (\<exists>m n. major w (the g) = Some m \<and> major w (the l) = Some n \<and> m < n))) \<and>
   (truthy (env s ''NEOAI_CLI_SET'') \<longrightarrow> \<not> warningEmitted w g l s)"
proof (intro conjI impI)
  assume "\<not> truthy g"
  then show "\<not> warningEmitted w g l s"
    by (simp add: warningEmitted_def warn_no_global)
next
  assume "truthy (env s ''NEOAI_CLI_SET'')"
  then show "\<not> warningEmitted w g l s"
    by (simp add: warningEmitted_def warn_marker)
next
  assume a: "truthy g \<and> truthy l \<and> \<not> truthy (env s ''NEOAI_CLI_SET'')"
  show "warningEmitted w g l s \<longleftrightarrow>
          (\<exists>m n. major w (the g) = Some m \<and> major w (the l) = Some n \<and> m < n)"
  proof (cases "compareMajor w (the g) (the l)")
    case (Inl e)
    then have "\<not> (\<exists>m n. major w (the g) = Some m \<and> major w (the l) = Some n \<and> m < n)"
      using compareMajor_less [of w "the g" "the l"] by simp
    with Inl a show ?thesis
      by (simp add: warningEmitted_def warn_local_known)
  next
    case (Inr b)
    then have "b \<longleftrightarrow> (\<exists>m n. major w (the g) = Some m \<and> major w (the l) = Some n \<and> m < n)"
      using compareMajor_less [of w "the g" "the l"] by simp
    with Inr a show ?thesis
      by (simp add: warningEmitted_def warn_local_known)
  qed
qed

text \<open>
  The marker is tested for truthiness, so a variable that is set to the empty string does
  not suppress the warning.
\<close>

definition markerEmpty :: state where
  "markerEmpty = initialState [''NEOAI_CLI_SET'' \<mapsto> '''']"

theorem outdated_warning_counterexample:
  "env markerEmpty ''NEOAI_CLI_SET'' = Some '''' \<and>
   warningEmitted exampleWorld (Some ''18.0.0'') (Some ''19.0.0'') markerEmpty"
  by (simp add: markerEmpty_def initialState_def warningEmitted_def
      warnIfUsingOutdatedGlobalInstall_def checkOutdatedGlobalInstallation_def compareMajor_def
      truthy_def exampleWorld_def newEvents_def emit_def)

theorem outdated_warning_rules_witness:
  "truthy (Some ''18.0.0'') \<and> truthy (Some ''19.0.0'') \<and>
   \<not> truthy (env (initialState Map.empty) ''NEOAI_CLI_SET'') \<and>
   warningEmitted exampleWorld (Some ''18.0.0'') (Some ''19.0.0'') (initialState Map.empty) \<and>
   \<not> truthy None \<and>
   \<not> warningEmitted exampleWorld None (Some ''19.0.0'') (initialState Map.empty) \<and>
   truthy (env (initialState [''NEOAI_CLI_SET'' \<mapsto> ''true'']) ''NEOAI_CLI_SET'') \<and>
   \<not> warningEmitted exampleWorld (Some ''18.0.0'') (Some ''19.0.0'')
        (initialState [''NEOAI_CLI_SET'' \<mapsto> ''true''])"
  using outdated_warning_rules [of "Some ''18.0.0''" exampleWorld "Some ''19.0.0''" "initialState Map.empty"]
    outdated_warning_rules [of None exampleWorld "Some ''19.0.0''" "initialState Map.empty"]
    outdated_warning_rules [of "Some ''18.0.0''" exampleWorld "Some ''19.0.0''"
      "initialState [''NEOAI_CLI_SET'' \<mapsto> ''true'']"]
  by (simp add: truthy_def initialState_def exampleWorld_def)


subsection \<open>The latest published version\<close>

text \<open>\<open>n\<close> calls of \<open>getLatestVersionOfNeoai\<close> in a row: their results and the final state.\<close>

fun callLatest :: "world \<Rightarrow> nat \<Rightarrow> state \<Rightarrow> jsstring list \<times> state" where
  "callLatest w 0 s = ([], s)"
| "callLatest w (Suc n) s =
     (case getLatestVersionOfNeoai w s of
        (r, s1) \<Rightarrow> (case callLatest w n s1 of (rs, s2) \<Rightarrow> (r # rs, s2)))"

lemma getLatest_cached:
  "truthy (cache s) \<Longrightarrow> getLatestVersionOfNeoai w s = (cache s, s)"
  by (simp add: getLatestVersionOfNeoai_def)

lemma getLatest_stores:
  "truthy (fst (getLatestVersionOfNeoai w s)) \<Longrightarrow>
     cache (snd (getLatestVersionOfNeoai w s)) = fst (getLatestVersionOfNeoai w s)"
  by (simp add: getLatestVersionOfNeoai_def split: if_splits prod.splits)

lemma callLatest_cached:
  "truthy (cache s) \<Longrightarrow> callLatest w n s = (replicate n (cache s), s)"
  by (induction n) (simp_all add: getLatest_cached)

text \<open>
  C5, as amended. Once a call has returned a non-empty version string, any number of
  further calls return that string and leave the state as it is: no shell command is
  run again.
\<close>

theorem latest_version_memoized:
  assumes "truthy (fst (getLatestVersionOfNeoai w s))"
  shows "callLatest w n (snd (getLatestVersionOfNeoai w s)) =
           (replicate n (fst (getLatestVersionOfNeoai w s)), snd (getLatestVersionOfNeoai w s))"
proof -
  have c: "cache (snd (getLatestVersionOfNeoai w s)) = fst (getLatestVersionOfNeoai w s)"
    using assms by (rule getLatest_stores)
  with assms have "truthy (cache (snd (getLatestVersionOfNeoai w s)))"
    by simp
  then show ?thesis
    using c callLatest_cached [of "snd (getLatestVersionOfNeoai w s)" w n] by simp
qed

text \<open>A world in which the first shell command prints the version 19.1.0.\<close>

definition npmWorld :: world where
  "npmWorld = exampleWorld\<lparr>execSync := (\<lambda>n cmd. if n = 0 then Some (''19.1.0'' @ [CHR 0x0A]) else None)\<rparr>"

lemma npmWorld_first:
  "getLatestVersionOfNeoai npmWorld (initialState Map.empty) =
     (Some ''19.1.0'',
      \<lparr>env = Map.empty, events = [ExecSync ''npm view neoai@latest version''],
       cache = Some ''19.1.0'', execs = 1, GLOBAL_NEOAI_VERSION = None\<rparr>)"
  by (simp add: getLatestVersionOfNeoai_def getLatestVersionOfNeoai_uncached_def exec_def
      npmWorld_def exampleWorld_def initialState_def truthy_def emit_def trimAscii_def
      isAsciiWhitespace_def)

theorem latest_version_memoized_witness:
  "truthy (fst (getLatestVersionOfNeoai npmWorld (initialState Map.empty))) \<and>
   callLatest npmWorld 3 (snd (getLatestVersionOfNeoai npmWorld (initialState Map.empty))) =
     ([Some ''19.1.0'', Some ''19.1.0'', Some ''19.1.0''],
      \<lparr>env = Map.empty, events = [ExecSync ''npm view neoai@latest version''],
       cache = Some ''19.1.0'', execs = 1, GLOBAL_NEOAI_VERSION = None\<rparr>)"
proof -
  have t: "truthy (fst (getLatestVersionOfNeoai npmWorld (initialState Map.empty)))"
    by (simp add: npmWorld_first truthy_def)
  from latest_version_memoized [OF t, of 3] t show ?thesis
    by (simp add: npmWorld_first numeral_3_eq_3)
qed

text \<open>
  In \<open>exampleWorld\<close> both shell commands fail. The first call yields null, and the second
  call runs both commands again.
\<close>

theorem latest_version_counterexample:
  "fst (getLatestVersionOfNeoai exampleWorld (initialState Map.empty)) = None \<and>
   events (snd (getLatestVersionOfNeoai exampleWorld (initialState Map.empty))) =
     [ExecSync ''npm view neoai@latest version'', ExecSync ''pnpm view neoai@latest version''] \<and>
   events (snd (getLatestVersionOfNeoai exampleWorld
                  (snd (getLatestVersionOfNeoai exampleWorld (initialState Map.empty))))) =
     [ExecSync ''npm view neoai@latest version'', ExecSync ''pnpm view neoai@latest version'',
      ExecSync ''npm view neoai@latest version'', ExecSync ''pnpm view neoai@latest version'']"
  by (simp add: getLatestVersionOfNeoai_def getLatestVersionOfNeoai_uncached_def exec_def
      exampleWorld_def initialState_def truthy_def emit_def)


subsection \<open>Reaching the routing step\<close>

text \<open>
  The state in which \<open>main\<close> starts routing (line 84), when it gets there: the effects
  of lines 37 to 82 added to \<open>s\<close>.
\<close>

definition isLocalInstall :: "world \<Rightarrow> bool" where
  "isLocalInstall w =
     (case resolveNeoai w None of
        Inl e \<Rightarrow> False
      | Inr self \<Rightarrow> resolveLocalNeoai w = Some self)"

definition versionsAtRoute :: "world \<Rightarrow> state \<Rightarrow> (jsstring \<times> jsstring) \<times> state" where
  "versionsAtRoute w s =
     determineNeoaiVersions w (resolveLocalNeoai w) (findWorkspaceRoot w) (isLocalInstall w)
       (setupContext w (loadDotenv w s))"

definition atRoute :: "world \<Rightarrow> state \<Rightarrow> state" where
  "atRoute w s = snd (versionsAtRoute w s)"

lemma platform_passes:
  "platformSupported w \<Longrightarrow>
     (if \<not> skipsPlatformCheck w then assertSupportedPlatform (platformSupported w) else None) = None"
  by (simp add: assertSupportedPlatform_def)

lemma main_routes:
  assumes "platformSupported w" and "\<not> isWorkspaceExempt w" and "resolveNeoai w None = Inr self"
  shows "main w s =
           route w (resolveLocalNeoai w) (isLocalInstall w)
             (fst (fst (versionsAtRoute w s))) (snd (fst (versionsAtRoute w s))) (atRoute w s)"
  using assms
  by (simp add: main_def platform_passes isLocalInstall_def versionsAtRoute_def atRoute_def
      Let_def split: prod.splits)

lemma main_self_unresolved:
  assumes "platformSupported w" and "\<not> isWorkspaceExempt w" and "resolveNeoai w None = Inl e"
  shows "main w s = uncaught e (setupContext w (loadDotenv w s))"
  using assms by (simp add: main_def platform_passes Let_def)

lemma events_loadDotenv:
  "events (loadDotenv w s) =
     events s @ (case findWorkspaceRoot w of Some ws \<Rightarrow> [LoadRootEnvFiles (dir ws)] | None \<Rightarrow> [])"
  by (simp add: loadDotenv_def emit_def split: option.splits)

lemma events_setupContext:
  "events (setupContext w s) =
     events s @ (case findWorkspaceRoot w of
                   Some ws \<Rightarrow> (if daemonEnabled w then [] else [SetupWorkspaceContext (dir ws)])
                 | None \<Rightarrow> [])"
  by (simp add: setupContext_def emit_def split: option.splits)

lemma events_atRoute:
  "events (atRoute w s) =
     events s @
     (case findWorkspaceRoot w of
        Some ws \<Rightarrow> LoadRootEnvFiles (dir ws) # (if daemonEnabled w then [] else [SetupWorkspaceContext (dir ws)])
      | None \<Rightarrow> [])"
  by (simp add: atRoute_def versionsAtRoute_def determineNeoaiVersions_def Let_def
      events_setupContext events_loadDotenv split: option.splits)

lemma env_atRoute: "env (atRoute w s) = env s"
  by (simp add: atRoute_def versionsAtRoute_def determineNeoaiVersions_def Let_def
      setupContext_def loadDotenv_def emit_def split: option.splits)

lemma cache_atRoute: "cache (atRoute w s) = cache s"
  by (simp add: atRoute_def versionsAtRoute_def determineNeoaiVersions_def Let_def
      setupContext_def loadDotenv_def emit_def split: option.splits)

lemma cloud_command_cases:
  "isNeoaiCloudCommand c \<Longrightarrow>
     c \<noteq> Some ''--version'' \<and> c \<noteq> Some ''new'' \<and> c \<noteq> Some ''_migrate'' \<and> c \<noteq> Some ''init'' \<and>
     c \<noteq> Some ''graph''"
  by (auto simp: isNeoaiCloudCommand_def)

lemma cloud_not_exempt: "isNeoaiCloudCommand (argv2 w) \<Longrightarrow> \<not> isWorkspaceExempt w"
  using cloud_command_cases [of "argv2 w"] by (simp add: isWorkspaceExempt_def)

subsection \<open>Cloud commands\<close>

text \<open>
  C1, as amended. For a cloud command started on a supported platform inside a workspace,
  with a running copy that resolves itself, the dispatcher runs the command in process
  with \<open>NEOAI_DAEMON\<close> set to \<open>false\<close>, whether the workspace has a local installation or
  not: after loading the environment files and setting up the workspace context it sets
  the variable and starts the commands, and does nothing else.
\<close>

theorem cloud_command_in_process:
  assumes "isNeoaiCloudCommand (argv2 w)" and "platformSupported w"
    and "findWorkspaceRoot w = Some ws" and "resolveNeoai w None = Inr self"
  shows "fst (main w s) = InProcess \<and>
         env (snd (main w s)) ''NEOAI_DAEMON'' = Some ''false'' \<and>
         events (snd (main w s)) =
           events s @ LoadRootEnvFiles (dir ws) #
             (if daemonEnabled w then [] else [SetupWorkspaceContext (dir ws)]) @
             [SetEnv ''NEOAI_DAEMON'' ''false'', CommandsArgv]"
proof -
  have r: "main w s =
             (InProcess, emit CommandsArgv (setEnv ''NEOAI_DAEMON'' ''false'' (atRoute w s)))"
    using assms cloud_command_cases [OF assms(1)]
    by (simp add: main_routes [OF assms(2) cloud_not_exempt [OF assms(1)] assms(4)] route_def)
  show ?thesis
    using assms(3) by (simp add: r emit_def setEnv_def events_atRoute)
qed

text \<open>\<open>login\<close> outside every workspace, with a running copy that resolves itself.\<close>

definition loginWorld :: world where
  "loginWorld = exampleWorld\<lparr>argv := [''node'', ''neoai'', ''login''], findWorkspaceRoot := None\<rparr>"

text \<open>\<open>login\<close> in a workspace that has no local installation.\<close>

definition loginNoLocalWorld :: world where
  "loginNoLocalWorld =
     exampleWorld\<lparr>argv := [''node'', ''neoai'', ''login''],
                  requireResolve := map_of [(''/usr/lib'', ''/usr/lib/node_modules/neoai/bin/neoai.js'')]\<rparr>"

theorem cloud_command_in_process_witness:
  "resolveLocalNeoai loginNoLocalWorld = None \<and>
   fst (main loginNoLocalWorld (initialState Map.empty)) = InProcess \<and>
   env (snd (main loginNoLocalWorld (initialState Map.empty))) ''NEOAI_DAEMON'' = Some ''false'' \<and>
   events (snd (main loginNoLocalWorld (initialState Map.empty))) =
     [LoadRootEnvFiles ''/ws'', SetupWorkspaceContext ''/ws'',
      SetEnv ''NEOAI_DAEMON'' ''false'', CommandsArgv]"
  using cloud_command_in_process [of loginNoLocalWorld "\<lparr>type = ''nx'', dir = ''/ws''\<rparr>"
      "''/usr/lib/node_modules/neoai/bin/neoai.js''" "initialState Map.empty"]
  by (simp add: loginNoLocalWorld_def exampleWorld_def isNeoaiCloudCommand_def argv2_def
      at_index_def resolveNeoai_def resolveLocalNeoai_def initialState_def)

lemma loginWorld_run:
  "main loginWorld (initialState Map.empty) =
     (ExitNoWorkspace,
      \<lparr>env = Map.empty,
       events = [LogNotInWorkspace, NoteMoreInformation,
                 ExecSync ''npm view neoai@latest version'',
                 ExecSync ''pnpm view neoai@latest version'', ProcessExit 1],
       cache = None, execs = 2, GLOBAL_NEOAI_VERSION = Some ''18.0.0''\<rparr>)"
  by (simp add: main_def loginWorld_def exampleWorld_def initialState_def skipsPlatformCheck_def
      argv2_def at_index_def assertSupportedPlatform_def loadDotenv_def isWorkspaceExempt_def
      setupContext_def resolveLocalNeoai_def resolveNeoai_def determineNeoaiVersions_def
      truthy_def route_def handleNoWorkspace_def warnIfUsingOutdatedGlobalInstall_def
      checkOutdatedGlobalInstallation_def getLatestVersionOfNeoai_def
      getLatestVersionOfNeoai_uncached_def exec_def emit_def isNeoaiCloudCommand_def Let_def)

theorem cloud_command_counterexample:
  "isNeoaiCloudCommand (argv2 loginWorld) \<and> findWorkspaceRoot loginWorld = None \<and>
   resolveLocalNeoai loginWorld = None \<and>
   fst (main loginWorld (initialState Map.empty)) = ExitNoWorkspace"
  by (simp add: loginWorld_run)
     (simp add: loginWorld_def exampleWorld_def isNeoaiCloudCommand_def argv2_def at_index_def
        resolveLocalNeoai_def)


subsection \<open>Resolution failures\<close>

lemma main_cases:
  "(\<not> platformSupported w \<and> fst (main w s) = ExitError) \<or>
   (isWorkspaceExempt w \<and> fst (main w s) = InProcess) \<or>
   (\<exists>e. resolveNeoai w None = Inl e \<and> fst (main w s) = ExitError) \<or>
   (\<exists>self LOCAL GLOBAL s4. resolveNeoai w None = Inr self \<and>
      main w s = route w (resolveLocalNeoai w) (resolveLocalNeoai w = Some self) LOCAL GLOBAL s4)"
  by (auto simp: main_def Let_def uncaught_def assertSupportedPlatform_def
      split: prod.splits option.splits sum.splits)

lemma route_no_local:
  assumes "findWorkspaceRoot w = Some ws" and "\<not> truthy localNeoai"
  shows "fst (route w localNeoai il LOCAL GLOBAL s) \<in> {ExitVersion, ExitMissingLocal, InProcess}"
  using assms by (simp add: route_def Let_def)

text \<open>
  C6, as amended. Inside \<open>resolveNeoai\<close> only the failure of the first attempt (the
  managed installation) is swallowed: the resolver goes on to the root. A failure of the
  second attempt leaves the resolver as an exception. For the attempt in the workspace
  the dispatcher catches it: the local path is null, and on a supported platform, when
  the running copy resolves itself, the dispatcher ends in the version display, the
  missing-installation exit or in-process execution, never in the top-level error
  handler.
\<close>

theorem local_resolution_failure_swallowed:
  "(requireResolve w (getNeoaiInstallationPath w (dir ws)) = None \<longrightarrow>
      resolveNeoai w (Some ws) =
        (case requireResolve w (dir ws) of Some p \<Rightarrow> Inr p | None \<Rightarrow> Inl ModuleNotFound)) \<and>
   (findWorkspaceRoot w = Some ws \<and> resolveNeoai w (Some ws) = Inl e \<longrightarrow>
      resolveLocalNeoai w = None \<and>
      (platformSupported w \<and> resolveNeoai w None = Inr self \<longrightarrow>
         fst (main w s) \<in> {ExitVersion, ExitMissingLocal, InProcess} \<and>
         fst (main w s) \<noteq> ExitError))"
proof (intro conjI impI)
  assume "requireResolve w (getNeoaiInstallationPath w (dir ws)) = None"
  then show "resolveNeoai w (Some ws) =
               (case requireResolve w (dir ws) of Some p \<Rightarrow> Inr p | None \<Rightarrow> Inl ModuleNotFound)"
    by (simp add: resolveNeoai_def)
next
  assume a: "findWorkspaceRoot w = Some ws \<and> resolveNeoai w (Some ws) = Inl e"
  then show l: "resolveLocalNeoai w = None"
    by (simp add: resolveLocalNeoai_def)
  assume self: "platformSupported w \<and> resolveNeoai w None = Inr self"
  have nl: "\<not> truthy (resolveLocalNeoai w)"
    using l by (simp add: truthy_def)
  from main_cases [of w s]
  show m: "fst (main w s) \<in> {ExitVersion, ExitMissingLocal, InProcess}"
  proof (elim disjE exE conjE)
    fix self' LOCAL GLOBAL s4
    assume "main w s = route w (resolveLocalNeoai w) (resolveLocalNeoai w = Some self') LOCAL GLOBAL s4"
    with route_no_local [OF conjunct1 [OF a] nl]
    show ?thesis by fastforce
  qed (use self in simp_all)
  from m show "fst (main w s) \<noteq> ExitError"
    by auto
qed

text \<open>
  Nothing resolves: the resolver throws for the workspace (to its caller), and the
  unguarded call for the running copy takes the dispatcher to the top-level handler.
\<close>

definition unresolvedWorld :: world where
  "unresolvedWorld = exampleWorld\<lparr>requireResolve := (\<lambda>p. None)\<rparr>"

theorem resolution_failure_counterexample:
  "resolveNeoai unresolvedWorld (findWorkspaceRoot unresolvedWorld) = Inl ModuleNotFound \<and>
   resolveNeoai unresolvedWorld None = Inl ModuleNotFound \<and>
   main unresolvedWorld (initialState Map.empty) =
     (ExitError,
      \<lparr>env = Map.empty,
       events = [LoadRootEnvFiles ''/ws'', SetupWorkspaceContext ''/ws'',
                 ConsoleError ''error'', ProcessExit 1],
       cache = None, execs = 0, GLOBAL_NEOAI_VERSION = None\<rparr>)"
  by (simp add: main_def unresolvedWorld_def exampleWorld_def initialState_def
      skipsPlatformCheck_def argv2_def at_index_def assertSupportedPlatform_def loadDotenv_def
      isWorkspaceExempt_def setupContext_def resolveNeoai_def uncaught_def emit_def Let_def)

text \<open>
  The workspace of \<open>loginNoLocalWorld\<close> resolves nothing, the running copy resolves
  itself; with \<open>build\<close> the dispatcher reports the missing installation.
\<close>

definition buildNoLocalWorld :: world where
  "buildNoLocalWorld = loginNoLocalWorld\<lparr>argv := [''node'', ''neoai'', ''build'']\<rparr>"

theorem local_resolution_failure_swallowed_witness:
  "resolveNeoai buildNoLocalWorld (Some \<lparr>type = ''nx'', dir = ''/ws''\<rparr>) = Inl ModuleNotFound \<and>
   resolveLocalNeoai buildNoLocalWorld = None \<and>
   fst (main buildNoLocalWorld (initialState Map.empty)) = ExitMissingLocal"
proof -
  have r: "requireResolve buildNoLocalWorld
             (getNeoaiInstallationPath buildNoLocalWorld (dir \<lparr>type = ''nx'', dir = ''/ws''\<rparr>)) = None"
    by (simp add: buildNoLocalWorld_def loginNoLocalWorld_def exampleWorld_def)
  have f: "findWorkspaceRoot buildNoLocalWorld = Some \<lparr>type = ''nx'', dir = ''/ws''\<rparr>"
    by (simp add: buildNoLocalWorld_def loginNoLocalWorld_def exampleWorld_def)
  have self: "resolveNeoai buildNoLocalWorld None = Inr ''/usr/lib/node_modules/neoai/bin/neoai.js''"
    by (simp add: buildNoLocalWorld_def loginNoLocalWorld_def exampleWorld_def resolveNeoai_def)
  note t = local_resolution_failure_swallowed
    [of buildNoLocalWorld "\<lparr>type = ''nx'', dir = ''/ws''\<rparr>" ModuleNotFound
      "''/usr/lib/node_modules/neoai/bin/neoai.js''" "initialState Map.empty"]
  have l: "resolveNeoai buildNoLocalWorld (Some \<lparr>type = ''nx'', dir = ''/ws''\<rparr>) = Inl ModuleNotFound"
    using t r by (simp add: buildNoLocalWorld_def loginNoLocalWorld_def exampleWorld_def)
  have "resolveLocalNeoai buildNoLocalWorld = None"
    using t f l by simp
  moreover have "fst (main buildNoLocalWorld (initialState Map.empty)) = ExitMissingLocal"
    by (simp add: main_def buildNoLocalWorld_def loginNoLocalWorld_def exampleWorld_def
      initialState_def skipsPlatformCheck_def argv2_def at_index_def assertSupportedPlatform_def
      loadDotenv_def isWorkspaceExempt_def setupContext_def resolveLocalNeoai_def resolveNeoai_def
      determineNeoaiVersions_def truthy_def route_def handleMissingLocalInstallation_def
      emit_def isNeoaiCloudCommand_def Let_def)
  ultimately show ?thesis
    using l by simp
qed


subsection \<open>What the warning check adds to the effects\<close>

fun isRequire :: "event \<Rightarrow> bool" where
  "isRequire (Require p) = True"
| "isRequire e = False"

lemma events_exec: "events (snd (exec w c s)) = events s @ [ExecSync c]"
  by (simp add: exec_def emit_def)

lemma events_uncached:
  "\<exists>xs. events (snd (getLatestVersionOfNeoai_uncached w s)) =
          events s @ ExecSync ''npm view neoai@latest version'' # xs \<and> filter isRequire xs = []"
  by (auto simp: getLatestVersionOfNeoai_uncached_def exec_def emit_def split: option.splits)

lemma events_getLatest:
  "\<exists>xs. events (snd (getLatestVersionOfNeoai w s)) = events s @ xs \<and> filter isRequire xs = []"
proof (cases "truthy (cache s)")
  case True
  then show ?thesis by (simp add: getLatestVersionOfNeoai_def)
next
  case False
  from events_uncached [of w s] obtain xs where
    "events (snd (getLatestVersionOfNeoai_uncached w s)) =
       events s @ ExecSync ''npm view neoai@latest version'' # xs" and "filter isRequire xs = []"
    by blast
  with False show ?thesis
    by (cases "getLatestVersionOfNeoai_uncached w s") (auto simp: getLatestVersionOfNeoai_def)
qed

lemma events_getLatest_first:
  assumes "\<not> truthy (cache s)"
  shows "\<exists>xs. events (snd (getLatestVersionOfNeoai w s)) =
               events s @ ExecSync ''npm view neoai@latest version'' # xs"
proof -
  from events_uncached [of w s] obtain xs where
    "events (snd (getLatestVersionOfNeoai_uncached w s)) =
       events s @ ExecSync ''npm view neoai@latest version'' # xs"
    by blast
  with assms show ?thesis
    by (cases "getLatestVersionOfNeoai_uncached w s") (auto simp: getLatestVersionOfNeoai_def)
qed

lemma events_check:
  "\<exists>xs. events (snd (checkOutdatedGlobalInstallation w g l s)) = events s @ xs \<and>
         filter isRequire xs = []"
proof -
  from events_getLatest [of w s] obtain xs where
    x: "events (snd (getLatestVersionOfNeoai w s)) = events s @ xs" "filter isRequire xs = []"
    by blast
  show ?thesis
  proof (cases "truthy g \<and> \<not> truthy l")
    case True
    with x show ?thesis
      by (cases "getLatestVersionOfNeoai w s")
         (auto simp: checkOutdatedGlobalInstallation_def split: sum.splits)
  next
    case False
    then show ?thesis
      by (auto simp: checkOutdatedGlobalInstallation_def split: sum.splits)
  qed
qed

lemma events_warn:
  "\<exists>xs. events (snd (warnIfUsingOutdatedGlobalInstall w g l s)) = events s @ xs \<and>
         filter isRequire xs = []"
proof -
  from events_check [of w g l s] obtain xs where
    x: "events (snd (checkOutdatedGlobalInstallation w g l s)) = events s @ xs"
       "filter isRequire xs = []"
    by blast
  then show ?thesis
    by (cases "checkOutdatedGlobalInstallation w g l s")
       (auto simp: warnIfUsingOutdatedGlobalInstall_def emit_def split: sum.splits)
qed

lemma events_warn_lookup:
  assumes "\<not> truthy (env s ''NEOAI_CLI_SET'')" and "truthy g" and "\<not> truthy (cache s)"
  shows "\<exists>xs. events (snd (warnIfUsingOutdatedGlobalInstall w g None s)) =
               events s @ ExecSync ''npm view neoai@latest version'' # xs"
proof -
  from events_getLatest_first [OF assms(3), of w] obtain xs where
    x: "events (snd (getLatestVersionOfNeoai w s)) =
          events s @ ExecSync ''npm view neoai@latest version'' # xs"
    by blast
  have n: "\<not> truthy None"
    by (simp add: truthy_def)
  show ?thesis
    using assms(1,2) x n
    by (cases "getLatestVersionOfNeoai w s")
       (auto simp: warnIfUsingOutdatedGlobalInstall_def checkOutdatedGlobalInstallation_def
          emit_def split: sum.splits)
qed



lemma no_workspace_no_local:
  "findWorkspaceRoot w = None \<Longrightarrow> resolveLocalNeoai w = None"
  by (simp add: resolveLocalNeoai_def)

subsection \<open>Routing with a local installation\<close>








definition localWorld :: world where
  "localWorld = exampleWorld\<lparr>globalsRoot := ''/ws''\<rparr>"







lemma localWorld_initLocal:
  "snd (initLocal localWorld (Some \<lparr>type = ''nx'', dir = ''/ws''\<rparr>)
     \<lparr>env = Map.empty, events = evs, cache = None, execs = 0, GLOBAL_NEOAI_VERSION = None\<rparr>) =
   \<lparr>env = [''NEOAI_CLI_SET'' \<mapsto> ''true''],
    events = evs @ [SetEnv ''NEOAI_CLI_SET'' ''true'', EnsureNeoaiConsoleInstalled,
                    CommandsParse [Some ''build'']],
    cache = None, execs = 0, GLOBAL_NEOAI_VERSION = None\<rparr>"
proof -
  have "rewriteTargetsAndProjects [''node'', ''neoai'', ''build''] = [Some ''build'']"
    by code_simp
  then show ?thesis
    by (simp add: initLocal_def initLocalTry_def setEnv_def emit_def shouldDelegateToAngularCLI_def
      runCommand_def isKnownCommand_def commandsParse_def argv2_def at_index_def truthy_def
      startsWith_def localWorld_def exampleWorld_def Let_def)
qed



text \<open>
  A workspace in a directory whose name contains \<open>.neoai\<close>, with its installation in the
  ordinary place. The wrapper that lines 106 to 108 name is not a module that loads, so
  \<open>require\<close> throws and the run ends in the handler of \<open>main\<close>.
\<close>

definition dotWorld :: world where
  "dotWorld =
     exampleWorld\<lparr>findWorkspaceRoot := Some \<lparr>type = ''nx'', dir = ''/tmp/nv.neoai-projects/ws''\<rparr>,
                  requireResolve :=
                    map_of [(''/tmp/nv.neoai-projects/ws'',
                             ''/tmp/nv.neoai-projects/ws/node_modules/neoai/bin/neoai.js''),
                            (''/usr/lib'', ''/usr/lib/node_modules/neoai/bin/neoai.js'')]\<rparr>"

lemma dotWorld_target:
  "delegateTarget ''/tmp/nv.neoai-projects/ws/node_modules/neoai/bin/neoai.js'' =
     ''/tmp/nv.neoai/neoaiw.js''"
  by code_simp

lemma dotWorld_run:
  "fst (main dotWorld (initialState Map.empty)) = ExitError \<and>
   events (snd (main dotWorld (initialState Map.empty))) =
     [LoadRootEnvFiles ''/tmp/nv.neoai-projects/ws'',
      SetupWorkspaceContext ''/tmp/nv.neoai-projects/ws'',
      WarnOutdated
        [''Your repository uses a higher version of Neoai (19.0.0) than your global CLI version (18.0.0)'',
         ''For more information, see https://khulnasoft.com/more-concepts/global-neoai''],
      Require ''/tmp/nv.neoai/neoaiw.js'', ConsoleError ''error'', ProcessExit 1]"
  by (simp add: main_def dotWorld_def exampleWorld_def initialState_def skipsPlatformCheck_def
      argv2_def at_index_def assertSupportedPlatform_def loadDotenv_def isWorkspaceExempt_def
      setupContext_def resolveLocalNeoai_def resolveNeoai_def determineNeoaiVersions_def
      getLocalNeoaiVersion_def truthy_def route_def warnIfUsingOutdatedGlobalInstall_def
      checkOutdatedGlobalInstallation_def compareMajor_def warningBodyLines_def uncaught_def
      emit_def isNeoaiCloudCommand_def dotWorld_target Let_def)


subsection \<open>No workspace\<close>

text \<open>
  C10. Take a command that is neither workspace-exempt nor \<open>--version\<close>, started on a
  supported platform outside every workspace by a copy that resolves itself. The
  dispatcher prints the guidance and the note, then calls the warning check with the
  version of the running copy and no local version, and then exits with 1: through
  \<open>process.exit(1)\<close> of \<open>handleNoWorkspace\<close> when the check returns, through the top-level
  handler when it throws. When the marker variable holds no non-empty value, the running
  copy has a version and nothing is cached yet, the check runs the shell command
  \<open>npm view neoai@latest version\<close>, right after the guidance and before the exit.
\<close>

theorem no_workspace_warning_check:
  assumes "\<not> isWorkspaceExempt w" and "argv2 w \<noteq> Some ''--version''" and "platformSupported w"
    and "findWorkspaceRoot w = None" and "resolveNeoai w None = Inr self"
  shows "(case warnIfUsingOutdatedGlobalInstall w (packageJsonVersion w) None
                 (emit NoteMoreInformation (emit LogNotInWorkspace (atRoute w s))) of
            (Inr u, s5) \<Rightarrow> main w s = (ExitNoWorkspace, emit (ProcessExit 1) s5)
          | (Inl e, s5) \<Rightarrow> main w s = uncaught e s5) \<and>
         (\<exists>mid. events (snd (main w s)) =
                  events s @ [LogNotInWorkspace, NoteMoreInformation] @ mid @ [ProcessExit 1] \<and>
                (\<not> truthy (env s ''NEOAI_CLI_SET'') \<and> truthy (packageJsonVersion w) \<and>
                 \<not> truthy (cache s) \<longrightarrow>
                   (\<exists>rest. mid = ExecSync ''npm view neoai@latest version'' # rest)))"
proof -
  let ?s0 = "emit NoteMoreInformation (emit LogNotInWorkspace (atRoute w s))"
  let ?r = "warnIfUsingOutdatedGlobalInstall w (packageJsonVersion w) None ?s0"
  have l: "resolveLocalNeoai w = None"
    using assms(4) by (rule no_workspace_no_local)
  have il: "\<not> isLocalInstall w"
    using assms(5) l by (simp add: isLocalInstall_def)
  have v: "fst (versionsAtRoute w s) = (None, packageJsonVersion w)"
    using l il by (simp add: versionsAtRoute_def determineNeoaiVersions_def Let_def truthy_def)
  have m: "main w s = route w None False None (packageJsonVersion w) (atRoute w s)"
    using main_routes [OF assms(3) assms(1) assms(5), of s] l il v by simp
  have r: "main w s =
             (case ?r of (Inr u, s5) \<Rightarrow> (ExitNoWorkspace, emit (ProcessExit 1) s5)
                       | (Inl e, s5) \<Rightarrow> uncaught e s5)"
    using assms(2,4) by (simp add: m route_def handleNoWorkspace_def split: prod.splits sum.splits)
  have e0: "events ?s0 = events s @ [LogNotInWorkspace, NoteMoreInformation]"
    using assms(4) by (simp add: emit_def events_atRoute)
  from events_warn [of w "packageJsonVersion w" None ?s0]
  obtain xs where xs: "events (snd ?r) = events ?s0 @ xs"
    by blast
  have first: "\<exists>rest. xs = ExecSync ''npm view neoai@latest version'' # rest"
    if "\<not> truthy (env s ''NEOAI_CLI_SET'') \<and> truthy (packageJsonVersion w) \<and> \<not> truthy (cache s)"
  proof -
    have "\<not> truthy (env ?s0 ''NEOAI_CLI_SET'')" and "\<not> truthy (cache ?s0)"
      using that by (simp_all add: emit_def env_atRoute cache_atRoute)
    from events_warn_lookup [OF this(1) _ this(2), of "packageJsonVersion w" w] that xs
    show ?thesis by auto
  qed
  show ?thesis
  proof (cases ?r)
    case (Pair res s5)
    then have s5: "events s5 = events s @ [LogNotInWorkspace, NoteMoreInformation] @ xs"
      using xs e0 by simp
    show ?thesis
    proof (cases res)
      case (Inl e)
      with Pair r have "main w s = uncaught e s5"
        by simp
      moreover from this s5
      have "events (snd (main w s)) =
              events s @ [LogNotInWorkspace, NoteMoreInformation] @
                (xs @ [ConsoleError ''error'']) @ [ProcessExit 1]"
        by (simp add: uncaught_def emit_def)
      ultimately show ?thesis
        using Pair Inl first by (intro conjI exI [of _ "xs @ [ConsoleError ''error'']"]) auto
    next
      case (Inr u)
      with Pair r have "main w s = (ExitNoWorkspace, emit (ProcessExit 1) s5)"
        by simp
      moreover from this s5
      have "events (snd (main w s)) =
              events s @ [LogNotInWorkspace, NoteMoreInformation] @ xs @ [ProcessExit 1]"
        by (simp add: emit_def)
      ultimately show ?thesis
        using Pair Inr first by (intro conjI exI [of _ xs]) auto
    qed
  qed
qed

text \<open>\<open>build\<close> outside every workspace.\<close>

definition noWorkspaceWorld :: world where
  "noWorkspaceWorld = exampleWorld\<lparr>findWorkspaceRoot := None\<rparr>"

lemma noWorkspaceWorld_atRoute:
  "atRoute noWorkspaceWorld (initialState Map.empty) =
     \<lparr>env = Map.empty, events = [], cache = None, execs = 0, GLOBAL_NEOAI_VERSION = Some ''18.0.0''\<rparr>"
  by (simp add: atRoute_def versionsAtRoute_def determineNeoaiVersions_def isLocalInstall_def
      resolveLocalNeoai_def resolveNeoai_def setupContext_def loadDotenv_def emit_def
      noWorkspaceWorld_def exampleWorld_def initialState_def truthy_def Let_def)

lemma noWorkspaceWorld_warns:
  "warnIfUsingOutdatedGlobalInstall noWorkspaceWorld (Some ''18.0.0'') None
     \<lparr>env = Map.empty, events = evs, cache = None, execs = 0, GLOBAL_NEOAI_VERSION = Some ''18.0.0''\<rparr> =
   (Inr (),
    \<lparr>env = Map.empty,
     events = evs @ [ExecSync ''npm view neoai@latest version'',
                     ExecSync ''pnpm view neoai@latest version''],
     cache = None, execs = 2, GLOBAL_NEOAI_VERSION = Some ''18.0.0''\<rparr>)"
  by (simp add: warnIfUsingOutdatedGlobalInstall_def checkOutdatedGlobalInstallation_def
      getLatestVersionOfNeoai_def getLatestVersionOfNeoai_uncached_def exec_def truthy_def
      emit_def noWorkspaceWorld_def exampleWorld_def)

theorem no_workspace_warning_check_witness:
  "main noWorkspaceWorld (initialState Map.empty) =
     (ExitNoWorkspace,
      \<lparr>env = Map.empty,
       events = [LogNotInWorkspace, NoteMoreInformation,
                 ExecSync ''npm view neoai@latest version'',
                 ExecSync ''pnpm view neoai@latest version'', ProcessExit 1],
       cache = None, execs = 2, GLOBAL_NEOAI_VERSION = Some ''18.0.0''\<rparr>)"
proof -
  have h: "\<not> isWorkspaceExempt noWorkspaceWorld" "argv2 noWorkspaceWorld \<noteq> Some ''--version''"
    "platformSupported noWorkspaceWorld" "findWorkspaceRoot noWorkspaceWorld = None"
    "resolveNeoai noWorkspaceWorld None = Inr ''/usr/lib/node_modules/neoai/bin/neoai.js''"
    "packageJsonVersion noWorkspaceWorld = Some ''18.0.0''"
    by (simp_all add: noWorkspaceWorld_def exampleWorld_def isWorkspaceExempt_def argv2_def
        at_index_def resolveNeoai_def)
  from no_workspace_warning_check [OF h(1-5), of "initialState Map.empty"]
  have "case warnIfUsingOutdatedGlobalInstall noWorkspaceWorld (Some ''18.0.0'') None
               (emit NoteMoreInformation (emit LogNotInWorkspace
                  (atRoute noWorkspaceWorld (initialState Map.empty)))) of
          (Inr u, s5) \<Rightarrow>
            main noWorkspaceWorld (initialState Map.empty) = (ExitNoWorkspace, emit (ProcessExit 1) s5)
        | (Inl e, s5) \<Rightarrow> main noWorkspaceWorld (initialState Map.empty) = uncaught e s5"
    by (simp add: h(6))
  then show ?thesis
    by (simp add: noWorkspaceWorld_atRoute emit_def noWorkspaceWorld_warns)
qed


subsection \<open>The marker set by initLocal\<close>

lemma handleAngularCLIFallbacks_keeps:
  "env (snd (handleAngularCLIFallbacks w ws s)) = env s \<and>
   (\<exists>xs. events (snd (handleAngularCLIFallbacks w ws s)) = events s @ xs)"
  by (simp add: handleAngularCLIFallbacks_def emit_def split: option.splits)

lemma commandsParse_keeps:
  "env (snd (commandsParse w args s)) = env s \<and>
   (\<exists>xs. events (snd (commandsParse w args s)) = events s @ xs)"
  by (simp add: commandsParse_def emit_def)

lemma runCommand_keeps:
  "env (snd (runCommand w s)) = env s \<and> (\<exists>xs. events (snd (runCommand w s)) = events s @ xs)"
  using commandsParse_keeps [of w _ s]
  by (simp add: runCommand_def Let_def emit_def)

lemma initLocalTry_keeps:
  "env (snd (initLocalTry w workspace s)) = env s \<and>
   (\<exists>xs. events (snd (initLocalTry w workspace s)) = events s @ xs)"
proof (cases workspace)
  case None
  then show ?thesis by (simp add: initLocalTry_def)
next
  case (Some ws)
  let ?a = "emit (ConsoleWarn ''Using Neoai to run Angular CLI commands is deprecated'') s"
  let ?b = "emit EnsureNeoaiConsoleInstalled s"
  show ?thesis
  proof (cases "type ws \<noteq> ''nx'' \<and> shouldDelegateToAngularCLI w")
    case True
    with Some handleAngularCLIFallbacks_keeps [of w ws ?a] show ?thesis
      by (cases "handleAngularCLIFallbacks w ws ?a") (auto simp: initLocalTry_def emit_def)
  next
    case False
    with Some runCommand_keeps [of w ?b] show ?thesis
      by (cases "runCommand w ?b") (auto simp: initLocalTry_def emit_def split: sum.splits)
  qed
qed

text \<open>
  C9. Whatever \<open>initLocal\<close> goes on to do, the first effect it adds is the assignment of
  \<open>true\<close> to \<open>NEOAI_CLI_SET\<close>: the command body, the Angular fallback and the error
  exit all come after it. The variable still holds \<open>true\<close> when \<open>initLocal\<close> is done,
  and in that state every call of the warning check returns at once: nothing is emitted,
  no command is run, the state is unchanged.
\<close>

theorem initLocal_sets_marker:
  "(\<exists>rest. events (snd (initLocal w workspace s)) =
             events s @ SetEnv ''NEOAI_CLI_SET'' ''true'' # rest) \<and>
   env (snd (initLocal w workspace s)) ''NEOAI_CLI_SET'' = Some ''true'' \<and>
   (\<forall>w' g l. warnIfUsingOutdatedGlobalInstall w' g l (snd (initLocal w workspace s)) =
               (Inr (), snd (initLocal w workspace s)))"
proof -
  let ?s1 = "setEnv ''NEOAI_CLI_SET'' ''true'' s"
  from initLocalTry_keeps [of w workspace ?s1] obtain xs where
    k: "env (snd (initLocalTry w workspace ?s1)) = env ?s1"
       "events (snd (initLocalTry w workspace ?s1)) = events ?s1 @ xs"
    by blast
  have s1: "env ?s1 ''NEOAI_CLI_SET'' = Some ''true''"
    "events ?s1 = events s @ [SetEnv ''NEOAI_CLI_SET'' ''true'']"
    by (simp_all add: setEnv_def emit_def)
  have ev: "\<exists>rest. events (snd (initLocal w workspace s)) =
                     events s @ SetEnv ''NEOAI_CLI_SET'' ''true'' # rest"
    using k(2) s1(2)
    by (cases "initLocalTry w workspace ?s1")
       (auto simp: initLocal_def emit_def split: sum.splits)
  have en: "env (snd (initLocal w workspace s)) ''NEOAI_CLI_SET'' = Some ''true''"
    using k(1) s1(1)
    by (cases "initLocalTry w workspace ?s1")
       (auto simp: initLocal_def emit_def split: sum.splits)
  then have "truthy (env (snd (initLocal w workspace s)) ''NEOAI_CLI_SET'')"
    by (simp add: truthy_def)
  then have "\<forall>w' g l. warnIfUsingOutdatedGlobalInstall w' g l (snd (initLocal w workspace s)) =
                       (Inr (), snd (initLocal w workspace s))"
    by (simp add: warn_marker)
  with ev en show ?thesis by blast
qed

theorem initLocal_sets_marker_witness:
  "events (snd (initLocal localWorld (Some \<lparr>type = ''nx'', dir = ''/ws''\<rparr>) (initialState Map.empty))) =
     [SetEnv ''NEOAI_CLI_SET'' ''true'', EnsureNeoaiConsoleInstalled, CommandsParse [Some ''build'']] \<and>
   env (snd (initLocal localWorld (Some \<lparr>type = ''nx'', dir = ''/ws''\<rparr>) (initialState Map.empty)))
     ''NEOAI_CLI_SET'' = Some ''true'' \<and>
   warningEmitted exampleWorld (Some ''18.0.0'') (Some ''19.0.0'') (initialState Map.empty) \<and>
   \<not> warningEmitted exampleWorld (Some ''18.0.0'') (Some ''19.0.0'')
        (snd (initLocal localWorld (Some \<lparr>type = ''nx'', dir = ''/ws''\<rparr>) (initialState Map.empty)))"
proof -
  let ?s = "snd (initLocal localWorld (Some \<lparr>type = ''nx'', dir = ''/ws''\<rparr>) (initialState Map.empty))"
  note t = initLocal_sets_marker [of localWorld "Some \<lparr>type = ''nx'', dir = ''/ws''\<rparr>" "initialState Map.empty"]
  from t have "warnIfUsingOutdatedGlobalInstall exampleWorld (Some ''18.0.0'') (Some ''19.0.0'') ?s = (Inr (), ?s)"
    by blast
  then have "\<not> warningEmitted exampleWorld (Some ''18.0.0'') (Some ''19.0.0'') ?s"
    by (simp add: warningEmitted_def)
  moreover have "warningEmitted exampleWorld (Some ''18.0.0'') (Some ''19.0.0'') (initialState Map.empty)"
    by (simp add: initialState_def warningEmitted_def warnIfUsingOutdatedGlobalInstall_def
        checkOutdatedGlobalInstallation_def compareMajor_def truthy_def exampleWorld_def
        newEvents_def emit_def)
  moreover have "events ?s =
     [SetEnv ''NEOAI_CLI_SET'' ''true'', EnsureNeoaiConsoleInstalled, CommandsParse [Some ''build'']]"
    by (simp add: initialState_def localWorld_initLocal)
  ultimately show ?thesis
    using t by simp
qed


section \<open>The post-install step (bin/post-install)\<close>

text \<open>
  The script arms a timer of 30 seconds, starts the guarded work, and then registers the
  handlers for uncaught exceptions and unhandled rejections. The guarded work runs
  synchronously up to the one \<open>await\<close>; from then on the process waits for whichever
  comes first: the awaited promise, the timer, or a failure raised elsewhere in the
  process. Times are in milliseconds since the start; the synchronous part takes none.
\<close>

datatype settlement = Resolves nat | Rejects nat | Pending

datatype failure = UncaughtException | UnhandledRejection

record installWorld =
  resolveWorkspaceNeoai :: "string option"
  resolveThisNeoai :: "string option"
  neoaiJsonExists :: bool
  supportedPlatform :: bool
  isNeoaiCloudUsed :: "bool option"
  getCloudOptions :: bool
  verifyOrUpdateNeoaiCloudClient :: settlement
  strayFailure :: "(nat \<times> failure) option"

text \<open>
  \<open>resolveWorkspaceNeoai\<close> is \<^verbatim>\<open>require.resolve('neoai', {paths: [workspaceRoot]})\<close> and
  \<open>resolveThisNeoai\<close> is \<^verbatim>\<open>require.resolve('neoai')\<close>, \<open>None\<close> when they throw;
  \<open>isNeoaiCloudUsed\<close> is \<^verbatim>\<open>isNeoaiCloudUsed(readNeoaiJson())\<close>, \<open>None\<close> when it throws;
  \<open>getCloudOptions\<close> is false when that call throws; \<open>strayFailure\<close> is an exception or
  rejection that nothing else handles, with the time at which it is raised.
\<close>

datatype installEvent =
    LoggerVerbose string
  | ClearTimeout
  | Exit nat

datatype cause = WatchdogFired | WorkCompleted | WorkThrew | TopLevelFailure

text \<open>How a run ends: what made the process exit, when, and everything it did.\<close>

record installResult =
  exitCause :: cause
  exitTime :: nat
  installLog :: "installEvent list"

text \<open>The exit code of a run: the code of the first \<open>process.exit\<close> it reaches, if any.\<close>

fun exitStatus :: "installEvent list \<Rightarrow> nat option" where
  "exitStatus [] = None"
| "exitStatus (Exit n # es) = Some n"
| "exitStatus (e # es) = exitStatus es"

definition isMainNeoaiPackage :: "installWorld \<Rightarrow> error + bool" where
  "isMainNeoaiPackage w =
     (case resolveWorkspaceNeoai w of
        None \<Rightarrow> Inl ModuleNotFound
      | Some mainNeoaiPath \<Rightarrow>
          (case resolveThisNeoai w of
             None \<Rightarrow> Inl ModuleNotFound
           | Some thisNeoaiPath \<Rightarrow> Inr (mainNeoaiPath = thisNeoaiPath)))"

text \<open>
  The \<open>try\<close> block up to the \<open>await\<close>: it throws (\<open>Inl\<close>), ends without waiting
  (\<open>Inr False\<close>), or reaches the \<open>await\<close> (\<open>Inr True\<close>).
\<close>

definition guardedWork :: "installWorld \<Rightarrow> error + bool" where
  "guardedWork w =
     (case isMainNeoaiPackage w of
        Inl e \<Rightarrow> Inl e
      | Inr isMain \<Rightarrow>
          (if isMain \<and> neoaiJsonExists w then
             (case assertSupportedPlatform (supportedPlatform w) of
                Some e \<Rightarrow> Inl e
              | None \<Rightarrow>
                  (case isNeoaiCloudUsed w of
                     None \<Rightarrow> Inl TypeError
                   | Some used \<Rightarrow>
                       (if used then (if getCloudOptions w then Inr True else Inl TypeError)
                        else Inr False)))
           else Inr False))"

text \<open>The \<open>finally\<close> block, and the \<open>catch\<close> block before it.\<close>

definition finallyBlock :: "installEvent list" where
  "finallyBlock = [LoggerVerbose ''Neoai postinstall steps took'', ClearTimeout, Exit 0]"

definition catchBlock :: "installEvent list" where
  "catchBlock = [LoggerVerbose ''e'']"

text \<open>The callback of the timer, and the two handlers of the process.\<close>

definition timeoutCallback :: "installEvent list" where
  "timeoutCallback = [LoggerVerbose ''Neoai post-install timed out.'', Exit 0]"

definition failureHandler :: "failure \<Rightarrow> installEvent list" where
  "failureHandler f = [LoggerVerbose ''e'', Exit 0]"

definition postinstallTimeout :: nat where
  "postinstallTimeout = 30000"

text \<open>The time at which the awaited promise settles, if it does.\<close>

fun settleTime :: "settlement \<Rightarrow> nat option" where
  "settleTime (Resolves t) = Some t"
| "settleTime (Rejects t) = Some t"
| "settleTime Pending = None"

definition earlier :: "nat option \<Rightarrow> nat \<Rightarrow> bool" where
  "earlier a b = (case a of None \<Rightarrow> False | Some t \<Rightarrow> t < b)"

text \<open>The continuation of the \<open>await\<close>: the rest of the \<open>try\<close> is empty.\<close>

fun settled :: "settlement \<Rightarrow> cause \<times> installEvent list" where
  "settled (Rejects t) = (WorkThrew, catchBlock @ finallyBlock)"
| "settled s = (WorkCompleted, finallyBlock)"

text \<open>
  Of the three things the process waits for, the earliest runs and ends the process, so
  the others never run. On equal times the model lets the timer go first, then the stray
  failure.
\<close>

definition afterAwait :: "installWorld \<Rightarrow> installResult" where
  "afterAwait w =
     (let promise = settleTime (verifyOrUpdateNeoaiCloudClient w);
          stray = map_option fst (strayFailure w);
          limit = (case stray of None \<Rightarrow> postinstallTimeout | Some u \<Rightarrow> min u postinstallTimeout)
      in if earlier promise limit
         then \<lparr>exitCause = fst (settled (verifyOrUpdateNeoaiCloudClient w)),
               exitTime = the promise,
               installLog = snd (settled (verifyOrUpdateNeoaiCloudClient w))\<rparr>
         else if earlier stray postinstallTimeout
         then \<lparr>exitCause = TopLevelFailure, exitTime = the stray,
               installLog = failureHandler (snd (the (strayFailure w)))\<rparr>
         else \<lparr>exitCause = WatchdogFired, exitTime = postinstallTimeout,
               installLog = timeoutCallback\<rparr>)"

text \<open>
  The whole script. When the guarded work throws or ends before the \<open>await\<close>, the
  \<open>finally\<close> block runs at once, before the handlers are registered.
\<close>

definition postInstall :: "installWorld \<Rightarrow> installResult" where
  "postInstall w =
     (case guardedWork w of
        Inl e \<Rightarrow> \<lparr>exitCause = WorkThrew, exitTime = 0, installLog = catchBlock @ finallyBlock\<rparr>
      | Inr False \<Rightarrow> \<lparr>exitCause = WorkCompleted, exitTime = 0, installLog = finallyBlock\<rparr>
      | Inr True \<Rightarrow> afterAwait w)"

subsection \<open>The exit code\<close>

lemma exitStatus_blocks:
  "exitStatus finallyBlock = Some 0" "exitStatus (catchBlock @ finallyBlock) = Some 0"
  "exitStatus timeoutCallback = Some 0" "exitStatus (failureHandler f) = Some 0"
  by (simp_all add: finallyBlock_def catchBlock_def timeoutCallback_def failureHandler_def)

lemma clearTimeout_blocks:
  "ClearTimeout \<in> set finallyBlock" "ClearTimeout \<in> set (catchBlock @ finallyBlock)"
  "ClearTimeout \<notin> set timeoutCallback" "ClearTimeout \<notin> set (failureHandler f)"
  by (simp_all add: finallyBlock_def catchBlock_def timeoutCallback_def failureHandler_def)

lemma settled_cases:
  "(fst (settled x) = WorkCompleted \<and> snd (settled x) = finallyBlock) \<or>
   (fst (settled x) = WorkThrew \<and> snd (settled x) = catchBlock @ finallyBlock)"
  by (cases x) simp_all

lemma afterAwait_exit:
  "exitStatus (installLog (afterAwait w)) = Some 0 \<and>
   exitTime (afterAwait w) \<le> postinstallTimeout \<and>
   ((exitCause (afterAwait w) = WorkCompleted \<or> exitCause (afterAwait w) = WorkThrew) =
      (ClearTimeout \<in> set (installLog (afterAwait w))))"
  using settled_cases [of "verifyOrUpdateNeoaiCloudClient w"]
  by (auto simp: afterAwait_def Let_def earlier_def exitStatus_blocks clearTimeout_blocks
      split: option.splits)

text \<open>
  C7. Every run of the post-install script ends, at the latest when the timer of 30
  seconds fires, and the first \<open>process.exit\<close> it reaches has code 0: in the callback of
  the timer, in the \<open>finally\<close> block after the work completed or threw, or in a handler
  of the process. The timer is cleared exactly in the runs that end in the \<open>finally\<close>
  block.
\<close>

theorem post_install_exits_zero:
  "exitStatus (installLog (postInstall w)) = Some 0 \<and>
   exitTime (postInstall w) \<le> postinstallTimeout \<and>
   ((exitCause (postInstall w) = WorkCompleted \<or> exitCause (postInstall w) = WorkThrew) =
      (ClearTimeout \<in> set (installLog (postInstall w))))"
proof (cases "guardedWork w")
  case (Inl e)
  then show ?thesis
    by (simp add: postInstall_def exitStatus_blocks clearTimeout_blocks)
next
  case (Inr waits)
  show ?thesis
  proof (cases waits)
    case True
    with Inr afterAwait_exit [of w] show ?thesis
      by (simp add: postInstall_def)
  next
    case False
    with Inr show ?thesis
      by (simp add: postInstall_def exitStatus_blocks clearTimeout_blocks)
  qed
qed

text \<open>
  Four runs of the primary copy in a workspace that uses the remote service: the update
  takes 40 seconds; it completes after 2 seconds; it fails after 2 seconds; something
  else fails after 1 second while it is pending. A fifth run is on an unsupported
  platform.
\<close>

definition installExample :: "settlement \<Rightarrow> (nat \<times> failure) option \<Rightarrow> installWorld" where
  "installExample v f =
     \<lparr>resolveWorkspaceNeoai = Some ''/ws/node_modules/neoai/index.js'',
      resolveThisNeoai = Some ''/ws/node_modules/neoai/index.js'',
      neoaiJsonExists = True, supportedPlatform = True, isNeoaiCloudUsed = Some True,
      getCloudOptions = True, verifyOrUpdateNeoaiCloudClient = v, strayFailure = f\<rparr>"

theorem post_install_exits_zero_witness:
  "postInstall (installExample (Resolves 40000) None) =
     \<lparr>exitCause = WatchdogFired, exitTime = 30000,
      installLog = [LoggerVerbose ''Neoai post-install timed out.'', Exit 0]\<rparr> \<and>
   postInstall (installExample (Resolves 2000) None) =
     \<lparr>exitCause = WorkCompleted, exitTime = 2000,
      installLog = [LoggerVerbose ''Neoai postinstall steps took'', ClearTimeout, Exit 0]\<rparr> \<and>
   postInstall (installExample (Rejects 2000) None) =
     \<lparr>exitCause = WorkThrew, exitTime = 2000,
      installLog = [LoggerVerbose ''e'', LoggerVerbose ''Neoai postinstall steps took'',
                    ClearTimeout, Exit 0]\<rparr> \<and>
   postInstall (installExample Pending (Some (1000, UnhandledRejection))) =
     \<lparr>exitCause = TopLevelFailure, exitTime = 1000, installLog = [LoggerVerbose ''e'', Exit 0]\<rparr> \<and>
   postInstall ((installExample Pending None)\<lparr>supportedPlatform := False\<rparr>) =
     \<lparr>exitCause = WorkThrew, exitTime = 0,
      installLog = [LoggerVerbose ''e'', LoggerVerbose ''Neoai postinstall steps took'',
                    ClearTimeout, Exit 0]\<rparr> \<and>
   exitStatus (installLog (postInstall (installExample (Resolves 40000) None))) = Some 0"
  using post_install_exits_zero [of "installExample (Resolves 40000) None"]
  by (simp add: postInstall_def afterAwait_def guardedWork_def isMainNeoaiPackage_def
      assertSupportedPlatform_def installExample_def earlier_def postinstallTimeout_def
      finallyBlock_def catchBlock_def timeoutCallback_def failureHandler_def Let_def)

end
